theory Spec2Isabelle
  imports Main "HOL-Library.Sublist"
begin

section \<open>Go values used by the providers\<close>

text \<open>
  A Go \<open>string\<close> is a sequence of bytes, here a \<open>string\<close> (a list of 8-bit characters).
  A Go pointer that may be \<open>nil\<close> is an \<open>option\<close>; a function returning
  \<open>(value, error)\<close> returns \<open>error + value\<close>.
\<close>

datatype error =
    Errorf string
  | Errorf_v string error
  | UrlError string string string
  | Upstream string

text \<open>
  \<open>Errorf m\<close> is an error made by \<open>fmt.Errorf\<close> in the providers package whose verbs are
  all \<open>%s\<close>; \<open>m\<close> is the formatted message. \<open>Errorf_v p e\<close> is
  \<open>fmt.Errorf(p + "%v", e)\<close>. \<open>UrlError op u m\<close> is net/url's
  \<open>&url.Error{Op: op, URL: u, Err: errors.New(m)}\<close>. \<open>Upstream m\<close> is any other error
  handed back by a collaborator, named by its message.
\<close>

datatype panic = NilResponse | NilRelease

datatype 'a result = Panic panic | Err error | Ok 'a

datatype log_line = Debugf string | Infof string | Warnf string

subsection \<open>Package strings\<close>

text \<open>
  \<open>strings.Split(s, sep)\<close> and \<open>strings.ReplaceAll(s, old, new)\<close> for a non-empty
  separator or pattern, which is how the providers call them (\<open>"/"\<close> and
  \<open>"{version}"\<close>): the leftmost match is taken and the scan goes on behind it.
  Go's treatment of an empty separator or pattern (a cut at every UTF-8 sequence) is
  left out: the functions have no equation for it.
\<close>

fun Split :: "string \<Rightarrow> string \<Rightarrow> string list" where
  "Split [] (k # ks) = [[]]"
| "Split (c # cs) (k # ks) =
     (if prefix (k # ks) (c # cs)
      then [] # Split (drop (length (k # ks)) (c # cs)) (k # ks)
      else (let r = Split cs (k # ks) in (c # hd r) # tl r))"

fun ReplaceAll :: "string \<Rightarrow> string \<Rightarrow> string \<Rightarrow> string" where
  "ReplaceAll [] (k # ks) new = []"
| "ReplaceAll (c # cs) (k # ks) new =
     (if prefix (k # ks) (c # cs)
      then new @ ReplaceAll (drop (length (k # ks)) (c # cs)) (k # ks) new
      else c # ReplaceAll cs (k # ks) new)"

text \<open>
  \<open>strings.TrimSpace\<close> removes leading and trailing white space as Unicode defines it
  (\<open>unicode.IsSpace\<close>), reading the bytes as UTF-8. \<open>space_runes\<close> lists the UTF-8
  encodings of the white space runes: the six ASCII ones, U+0085, U+00A0, U+1680,
  U+2000 to U+200A, U+2028, U+2029, U+202F, U+205F and U+3000. The decoder accepts
  only the shortest encoding of a rune and reads a rune from the bytes that encode
  it, forwards from their first byte and backwards from their last, so a string
  starts (ends) with a white space rune exactly when one of these byte sequences is
  a prefix (suffix) of it.
\<close>

definition space_runes :: "string list" where
  "space_runes =
     [[CHR 0x09], [CHR 0x0A], [CHR 0x0B], [CHR 0x0C], [CHR 0x0D], [CHR 0x20],
      [CHR 0xC2, CHR 0x85], [CHR 0xC2, CHR 0xA0],
      [CHR 0xE1, CHR 0x9A, CHR 0x80],
      [CHR 0xE2, CHR 0x80, CHR 0x80], [CHR 0xE2, CHR 0x80, CHR 0x81],
      [CHR 0xE2, CHR 0x80, CHR 0x82], [CHR 0xE2, CHR 0x80, CHR 0x83],
      [CHR 0xE2, CHR 0x80, CHR 0x84], [CHR 0xE2, CHR 0x80, CHR 0x85],
      [CHR 0xE2, CHR 0x80, CHR 0x86], [CHR 0xE2, CHR 0x80, CHR 0x87],
      [CHR 0xE2, CHR 0x80, CHR 0x88], [CHR 0xE2, CHR 0x80, CHR 0x89],
      [CHR 0xE2, CHR 0x80, CHR 0x8A],
      [CHR 0xE2, CHR 0x80, CHR 0xA8], [CHR 0xE2, CHR 0x80, CHR 0xA9],
      [CHR 0xE2, CHR 0x80, CHR 0xAF],
      [CHR 0xE2, CHR 0x81, CHR 0x9F],
      [CHR 0xE3, CHR 0x80, CHR 0x80]]"

text \<open>The number of bytes of the white space rune a string starts (ends) with, 0 if none.\<close>

definition leading_space :: "string \<Rightarrow> nat" where
  "leading_space s =
     (case find (\<lambda>t. prefix t s) space_runes of None \<Rightarrow> 0 | Some t \<Rightarrow> length t)"

definition trailing_space :: "string \<Rightarrow> nat" where
  "trailing_space s =
     (case find (\<lambda>t. suffix t s) space_runes of None \<Rightarrow> 0 | Some t \<Rightarrow> length t)"

function TrimLeft :: "string \<Rightarrow> string" where
  "TrimLeft s = (if leading_space s = 0 then s else TrimLeft (drop (leading_space s) s))"
  by pat_completeness auto
termination
proof (relation "measure length")
  show "wf (measure length)" by simp
next
  fix s :: string
  assume "leading_space s \<noteq> 0"
  moreover have "leading_space s \<le> length s"
    by (auto simp: leading_space_def find_Some_iff prefix_length_le split: option.splits)
  ultimately show "(drop (leading_space s) s, s) \<in> measure length" by simp
qed

function TrimRight :: "string \<Rightarrow> string" where
  "TrimRight s =
     (if trailing_space s = 0 then s else TrimRight (take (length s - trailing_space s) s))"
  by pat_completeness auto
termination
proof (relation "measure length")
  show "wf (measure length)" by simp
next
  fix s :: string
  assume "trailing_space s \<noteq> 0"
  moreover have "trailing_space s \<le> length s"
    by (auto simp: trailing_space_def find_Some_iff suffix_length_le split: option.splits)
  ultimately show "(take (length s - trailing_space s) s, s) \<in> measure length" by simp
qed

declare TrimLeft.simps [simp del] TrimRight.simps [simp del]

definition TrimSpace :: "string \<Rightarrow> string" where
  "TrimSpace s = TrimRight (TrimLeft s)"

subsection \<open>Package path/filepath (Unix)\<close>

definition Base :: "string \<Rightarrow> string" where
  "Base path =
     (if path = [] then ''.''
      else let stripped = rev (dropWhile (\<lambda>c. c = CHR ''/'') (rev path));
               elem = rev (takeWhile (\<lambda>c. c \<noteq> CHR ''/'') (rev stripped))
           in if elem = [] then ''/'' else elem)"

subsection \<open>Package os\<close>

text \<open>The environment is a map; \<open>os.Getenv\<close> gives the empty string for an unset variable.\<close>

definition Getenv :: "(string \<rightharpoonup> string) \<Rightarrow> string \<Rightarrow> string" where
  "Getenv env key = (case env key of None \<Rightarrow> [] | Some v \<Rightarrow> v)"

subsection \<open>Package net/url\<close>

text \<open>
  Of a parsed \<open>*url.URL\<close> the providers read the field \<open>Path\<close> and the result of
  \<open>String()\<close>.
\<close>

record URL =
  Path :: string
  URL_String :: string

text \<open>
  \<open>url.Parse\<close> cuts the text at the first \<open>#\<close> and first of all rejects a text with an
  ASCII control byte before that cut (\<open>stringContainsCTLByte\<close>). What it does with
  any other text is the parameter \<open>parse\<close>.
\<close>

definition stringContainsCTLByte :: "string \<Rightarrow> bool" where
  "stringContainsCTLByte s = (\<exists>b \<in> set s. of_char b < (0x20 :: nat) \<or> of_char b = (0x7f :: nat))"

definition url_Parse :: "(string \<Rightarrow> error + URL) \<Rightarrow> string \<Rightarrow> error + URL" where
  "url_Parse parse rawURL =
     (let u = takeWhile (\<lambda>c. c \<noteq> CHR ''#'') rawURL
      in if stringContainsCTLByte u
         then Inl (UrlError ''parse'' u ''net/url: invalid control character in URL'')
         else parse rawURL)"

section \<open>The data model\<close>

text \<open>
  Modelled from the spec: the declarations of \<open>FetchOpts\<close> and \<open>File\<close> (package
  providers) and of \<open>Asset\<close>, \<open>FilteredAsset\<close>, \<open>FilterOpts\<close> and \<open>OutFile\<close> (package
  assets) are not among the source files; the records have the fields the source
  reads and writes, which are the ones the spec's data model lists. \<open>Data\<close> and
  \<open>Source\<close> are byte streams, here the bytes.
\<close>

record FetchOpts =
  All :: bool
  opts_PackagePath :: string
  SkipPatchCheck :: bool
  opts_PackageName :: string
  opts_Version :: string

record File =
  Data :: string
  File_Name :: string
  File_Version :: string
  File_PackagePath :: string

record Asset =
  Asset_Name :: string
  Asset_URL :: string

record FilteredAsset =
  fa_Name :: string
  fa_URL :: string
  ExtraHeaders :: "string \<rightharpoonup> string"

record FilterOpts =
  SkipScoring :: bool
  PackagePath :: string
  SkipPathCheck :: bool
  PackageName :: string

record OutFile =
  Source :: string
  OutFile_Name :: string
  OutFile_PackagePath :: string

text \<open>
  The asset selection and download collaborator, \<open>assets.NewFilter(opts)\<close>, with its
  two operations.
\<close>

record Filter =
  FilterAssets :: "string \<Rightarrow> Asset list \<Rightarrow> error + FilteredAsset"
  ProcessURL :: "FilteredAsset \<Rightarrow> error + OutFile"

subsection \<open>Package go-github\<close>

record ReleaseAsset =
  ra_Name :: "string option"
  ra_URL :: "string option"

record RepositoryRelease =
  TagName :: "string option"
  HTMLURL :: "string option"
  Assets :: "ReleaseAsset option list"

record Response =
  StatusCode :: int

text \<open>The getters of go-github give the empty string on a nil receiver and on a nil field.\<close>

definition GetName :: "ReleaseAsset option \<Rightarrow> string" where
  "GetName a = (case a of None \<Rightarrow> [] | Some r \<Rightarrow> (case ra_Name r of None \<Rightarrow> [] | Some n \<Rightarrow> n))"

definition GetURL :: "ReleaseAsset option \<Rightarrow> string" where
  "GetURL a = (case a of None \<Rightarrow> [] | Some r \<Rightarrow> (case ra_URL r of None \<Rightarrow> [] | Some n \<Rightarrow> n))"

definition GetTagName :: "RepositoryRelease option \<Rightarrow> string" where
  "GetTagName r = (case r of None \<Rightarrow> [] | Some rel \<Rightarrow> (case TagName rel of None \<Rightarrow> [] | Some t \<Rightarrow> t))"

definition GetHTMLURL :: "RepositoryRelease option \<Rightarrow> string" where
  "GetHTMLURL r = (case r of None \<Rightarrow> [] | Some rel \<Rightarrow> (case HTMLURL rel of None \<Rightarrow> [] | Some t \<Rightarrow> t))"

text \<open>
  \<open>oauth2.NewClient\<close> over a static token source gives an HTTP client that
  authenticates with that access token.
\<close>

datatype http_client = OAuth2Client string

text \<open>
  The go-github package: the two client constructors, and the two requests of the
  Releases API, each answering \<open>(release, response, error)\<close>. \<open>'c\<close> is
  \<open>*github.Client\<close>.
\<close>

type_synonym api_result = "RepositoryRelease option \<times> Response option \<times> error option"

record 'c go_github =
  NewClient :: "http_client option \<Rightarrow> 'c"
  NewEnterpriseClient :: "string \<Rightarrow> string \<Rightarrow> http_client option \<Rightarrow> error + 'c"
  GetReleaseByTag :: "'c \<Rightarrow> string \<Rightarrow> string \<Rightarrow> string \<Rightarrow> api_result"
  GetLatestRelease :: "'c \<Rightarrow> string \<Rightarrow> string \<Rightarrow> api_result"

definition StatusNotFound :: int where
  "StatusNotFound = 404"

section \<open>The GitHub provider (pkg/providers/github.go)\<close>

record 'c gitHub =
  url :: URL
  client :: 'c
  owner :: string
  repo :: string
  tag :: string
  asset :: string
  token :: string

text \<open>\<open>getCandidates\<close>: the loop over the release's assets, then the warning.\<close>

fun getCandidates_loop :: "ReleaseAsset option list \<Rightarrow> string \<Rightarrow> Asset list \<Rightarrow> Asset list \<times> bool" where
  "getCandidates_loop [] userAsset candidates = (candidates, False)"
| "getCandidates_loop (a # githubAssets) userAsset candidates =
     (if userAsset \<noteq> [] \<and> GetName a = userAsset
      then ([\<lparr>Asset_Name = GetName a, Asset_URL = GetURL a\<rparr>], True)
      else getCandidates_loop githubAssets userAsset
             (candidates @ [\<lparr>Asset_Name = GetName a, Asset_URL = GetURL a\<rparr>]))"

definition getCandidates :: "ReleaseAsset option list \<Rightarrow> string \<Rightarrow> Asset list \<times> log_line list" where
  "getCandidates githubAssets userAsset =
     (let (candidates, foundUserAsset) = getCandidates_loop githubAssets userAsset []
      in (candidates,
          if userAsset \<noteq> [] \<and> \<not> foundUserAsset
          then [Warnf (''asset '' @ userAsset @ '' not found in release'')]
          else []))"

text \<open>
  \<open>Fetch\<close> is taken on a provider and options that are not nil.

  \<open>Fetch\<close>, lines 29 to 47: the release is looked up, by tag or the latest. The
  result is the release and the error that line 49 tests, or the panic of reading
  \<open>resp.StatusCode\<close> through a nil \<open>resp\<close>; with it come the provider, whose \<open>tag\<close>
  the call may have overwritten, and the log.
\<close>

definition Fetch_release ::
  "'c go_github \<Rightarrow> 'c gitHub \<Rightarrow> FetchOpts
     \<Rightarrow> (RepositoryRelease option \<times> error option) result \<times> 'c gitHub \<times> log_line list" where
  "Fetch_release gh g opts =
     (if length (tag g) > 0 \<or> length (opts_Version opts) > 0
      then
        let g' = (if length (opts_Version opts) > 0 then g\<lparr>tag := opts_Version opts\<rparr> else g);
            (release, _, err) = GetReleaseByTag gh (client g') (owner g') (repo g') (tag g')
        in (Ok (release, err), g',
            [Infof (''Getting '' @ tag g' @ '' release for '' @ owner g' @ ''/'' @ repo g')])
      else
        let (release, resp, err) = GetLatestRelease gh (client g) (owner g) (repo g);
            l = [Infof (''Getting latest release for '' @ owner g @ ''/'' @ repo g)]
        in (case resp of
              None \<Rightarrow> (Panic NilResponse, g, l)
            | Some r \<Rightarrow>
                (Ok (release,
                     if StatusCode r = StatusNotFound
                     then Some (Errorf (''repository '' @ owner g @ ''/'' @ repo g
                                        @ '' does not have releases''))
                     else err),
                 g, l)))"

text \<open>\<open>Fetch\<close>, lines 49 to 78, from the release looked up.\<close>

definition Fetch_asset ::
  "(FilterOpts \<Rightarrow> Filter) \<Rightarrow> 'c gitHub \<Rightarrow> FetchOpts
     \<Rightarrow> RepositoryRelease option \<times> error option \<Rightarrow> File result \<times> log_line list" where
  "Fetch_asset NewFilter g opts looked_up =
     (case looked_up of (release, err) \<Rightarrow>
      (case err of
         Some e \<Rightarrow> (Err e, [])
       | None \<Rightarrow>
          (case release of
             None \<Rightarrow> (Panic NilRelease, [])
           | Some rel \<Rightarrow>
               let (candidates, l) = getCandidates (Assets rel) (asset g);
                   f = NewFilter \<lparr>SkipScoring = All opts, PackagePath = opts_PackagePath opts,
                                  SkipPathCheck = SkipPatchCheck opts,
                                  PackageName = opts_PackageName opts\<rparr>
               in (case FilterAssets f (repo g) candidates of
                     Inl e \<Rightarrow> (Err e, l)
                   | Inr gf0 \<Rightarrow>
                       let gf1 = gf0\<lparr>ExtraHeaders := [''Accept'' \<mapsto> ''application/octet-stream'']\<rparr>;
                           gf = (if token g \<noteq> []
                                 then gf1\<lparr>ExtraHeaders :=
                                        (ExtraHeaders gf1)(''Authorization'' \<mapsto> ''token '' @ token g)\<rparr>
                                 else gf1)
                       in (case ProcessURL f gf of
                             Inl e \<Rightarrow> (Err e, l)
                           | Inr outFile \<Rightarrow>
                               let version = GetTagName release
                               in (Ok \<lparr>Data = Source outFile, File_Name = OutFile_Name outFile,
                                       File_Version = version,
                                       File_PackagePath = OutFile_PackagePath outFile\<rparr>, l))))))"

text \<open>
  \<open>Fetch\<close>: the outcome, the provider after the call (the receiver is a pointer, and
  line 37 writes its \<open>tag\<close>) and the log.
\<close>

definition Fetch ::
  "'c go_github \<Rightarrow> (FilterOpts \<Rightarrow> Filter) \<Rightarrow> 'c gitHub \<Rightarrow> FetchOpts
     \<Rightarrow> File result \<times> 'c gitHub \<times> log_line list" where
  "Fetch gh NewFilter g opts =
     (case Fetch_release gh g opts of
        (Panic p, g', l) \<Rightarrow> (Panic p, g', l)
      | (Err e, g', l) \<Rightarrow> (Err e, g', l)
      | (Ok looked_up, g', l) \<Rightarrow>
          (case Fetch_asset NewFilter g' opts looked_up of (r, l') \<Rightarrow> (r, g', l @ l')))"

definition GetLatestVersion ::
  "'c go_github \<Rightarrow> 'c gitHub \<Rightarrow> (error + string \<times> string) \<times> log_line list" where
  "GetLatestVersion gh g =
     (let (release, _, err) = GetLatestRelease gh (client g) (owner g) (repo g)
      in (case err of
            Some e \<Rightarrow> Inl e
          | None \<Rightarrow> Inr (GetTagName release, GetHTMLURL release),
          [Debugf (''Getting latest release for '' @ owner g @ ''/'' @ repo g)]))"

definition GetID :: "'c gitHub \<Rightarrow> string" where
  "GetID g = ''github''"

definition newGitHub :: "'c go_github \<Rightarrow> (string \<rightharpoonup> string) \<Rightarrow> URL \<Rightarrow> error + 'c gitHub" where
  "newGitHub gh env u =
     (let splitedPath = Split (Path u) ''/''
      in if length splitedPath < 3
         then Inl (Errorf (''error parsing Github URL '' @ URL_String u
                           @ '', can't find owner and repo''))
         else
           let owner_v = splitedPath ! 1;
               repo_v = splitedPath ! 2;
               is_release = (length splitedPath > 5 \<and> splitedPath ! 3 = ''releases'');
               tag_v = (if is_release then splitedPath ! 5 else []);
               asset_v = (if is_release \<and> length splitedPath > 6 \<and> splitedPath ! 4 = ''download''
                          then splitedPath ! 6 else []);
               token0 = Getenv env ''GITHUB_AUTH_TOKEN'';
               token_v = (if length token0 = 0 then Getenv env ''GITHUB_TOKEN'' else token0);
               gbu = Getenv env ''GHES_BASE_URL'';
               guu = Getenv env ''GHES_UPLOAD_URL'';
               gau = Getenv env ''GHES_AUTH_TOKEN'';
               ghes = (length gbu > 0 \<and> length guu > 0 \<and> length gau > 0);
               tc = (if ghes then Some (OAuth2Client gau)
                     else if token_v \<noteq> [] then Some (OAuth2Client token_v)
                     else None)
           in if ghes
              then (case NewEnterpriseClient gh gbu guu tc of
                      Inl err \<Rightarrow> Inl (Errorf_v ''error initializing GHES client '' err)
                    | Inr client_v \<Rightarrow>
                        Inr \<lparr>url = u, client = client_v, owner = owner_v, repo = repo_v,
                             tag = tag_v, asset = asset_v, token = token_v\<rparr>)
              else Inr \<lparr>url = u, client = NewClient gh tc, owner = owner_v, repo = repo_v,
                        tag = tag_v, asset = asset_v, token = token_v\<rparr>)"

section \<open>The generic provider\<close>

text \<open>
  The HTTP client is the parameter \<open>Get\<close>: for a URL, a transport error or a
  response, whose body \<open>io.ReadAll\<close> reads to its bytes or fails to read.
\<close>

record generic =
  generic_url :: string
  generic_versionURL :: URL

definition generic_GetLatestVersion ::
  "(string \<Rightarrow> error + URL) \<Rightarrow> (string \<Rightarrow> error + (error + string)) \<Rightarrow> generic
     \<Rightarrow> (error + string \<times> string) \<times> log_line list" where
  "generic_GetLatestVersion parse Get g =
     ((case Get (URL_String (generic_versionURL g)) of
         Inl err \<Rightarrow> Inl err
       | Inr resp_Body \<Rightarrow>
           (case resp_Body of
              Inl err \<Rightarrow> Inl err
            | Inr content \<Rightarrow>
                let version = TrimSpace content;
                    versionURLString = ReplaceAll (generic_url g) ''{version}'' version
                in (case url_Parse parse versionURLString of
                      Inl err \<Rightarrow> Inl err
                    | Inr versionURL \<Rightarrow> Inr (version, URL_String versionURL)))),
      [Debugf (''Getting version from '' @ URL_String (generic_versionURL g))])"

definition generic_Fetch ::
  "(string \<Rightarrow> error + URL) \<Rightarrow> (string \<Rightarrow> error + (error + string)) \<Rightarrow> (FilterOpts \<Rightarrow> Filter)
     \<Rightarrow> generic \<Rightarrow> FetchOpts \<Rightarrow> (error + File) \<times> log_line list" where
  "generic_Fetch parse Get NewFilter g opts =
     (case generic_GetLatestVersion parse Get g of
        (Inl err, l) \<Rightarrow> (Inl err, l)
      | (Inr (version, versionURL), l) \<Rightarrow>
          let f = NewFilter \<lparr>SkipScoring = All opts, PackagePath = opts_PackagePath opts,
                             SkipPathCheck = SkipPatchCheck opts,
                             PackageName = opts_PackageName opts\<rparr>;
              gf = \<lparr>fa_Name = [], fa_URL = versionURL, ExtraHeaders = Map.empty\<rparr>
          in (case ProcessURL f gf of
                Inl err \<Rightarrow> (Inl err, l)
              | Inr outFile0 \<Rightarrow>
                  let outFile = (if OutFile_Name outFile0 = []
                                 then outFile0\<lparr>OutFile_Name := Base (fa_URL gf)\<rparr>
                                 else outFile0)
                  in (Inr \<lparr>Data = Source outFile, File_Name = OutFile_Name outFile,
                           File_Version = version,
                           File_PackagePath = OutFile_PackagePath outFile\<rparr>, l)))"

definition generic_GetID :: "generic \<Rightarrow> string" where
  "generic_GetID g = ''generic''"

definition newGeneric :: "(string \<Rightarrow> error + URL) \<Rightarrow> string \<Rightarrow> string \<Rightarrow> error + generic" where
  "newGeneric parse u versionURL =
     (case url_Parse parse versionURL of
        Inl err \<Rightarrow> Inl (Errorf_v ''invalid versionURL: '' err)
      | Inr lurl \<Rightarrow> Inr \<lparr>generic_url = u, generic_versionURL = lurl\<rparr>)"

section \<open>Vocabulary of the properties\<close>

text \<open>
  \<open>all_space s\<close>: the bytes \<open>s\<close> are white space runes, one after the other.
  \<open>Join ps sep\<close> is \<open>strings.Join\<close>: the pieces \<open>ps\<close> with \<open>sep\<close> between them.
\<close>

inductive all_space :: "string \<Rightarrow> bool" where
  all_space_Nil: "all_space []"
| all_space_rune: "t \<in> set space_runes \<Longrightarrow> all_space s \<Longrightarrow> all_space (t @ s)"

fun Join :: "string list \<Rightarrow> string \<Rightarrow> string" where
  "Join [] sep = []"
| "Join [p] sep = p"
| "Join (p # q # ps) sep = p @ sep @ Join (q # ps) sep"

text \<open>The first byte of a white space rune tells its length, so no rune is a prefix of another.\<close>

definition rune_width :: "char \<Rightarrow> nat" where
  "rune_width c = (if c = CHR 0xC2 then 2 else if c \<in> {CHR 0xE1, CHR 0xE2, CHR 0xE3} then 3 else 1)"

section \<open>Example collaborators\<close>

text \<open>
  Concrete collaborators, on which the theorems below are run: a go-github whose
  clients record how they were built, whose enterprise constructor fails on the base
  URL \<open>%\<close>, which knows the release \<open>v1.2.3\<close> by tag and answers the
  latest-release request as told.
\<close>

datatype example_client = Public "http_client option" | Enterprise string string "http_client option"

definition example_release :: RepositoryRelease where
  "example_release =
     \<lparr>TagName = Some ''v1.2.3'', HTMLURL = Some ''https://github.com/owner/repo/releases/tag/v1.2.3'',
      Assets = [Some \<lparr>ra_Name = Some ''tool-linux-amd64'',
                      ra_URL = Some ''https://api.github.com/repos/owner/repo/releases/assets/1''\<rparr>]\<rparr>"

definition example_github :: "api_result \<Rightarrow> example_client go_github" where
  "example_github latest =
     \<lparr>NewClient = Public,
      NewEnterpriseClient = (\<lambda>b u tc. if b = ''%'' then Inl (Upstream ''invalid URL escape'')
                                       else Inr (Enterprise b u tc)),
      GetReleaseByTag = (\<lambda>c ow re t. if t = ''v1.2.3''
                                      then (Some example_release, Some \<lparr>StatusCode = 200\<rparr>, None)
                                      else (None, Some \<lparr>StatusCode = 404\<rparr>, Some (Upstream ''404 Not Found''))),
      GetLatestRelease = (\<lambda>c ow re. latest)\<rparr>"

definition example_url :: "string \<Rightarrow> URL" where
  "example_url p = \<lparr>Path = p, URL_String = ''https://github.com'' @ p\<rparr>"

text \<open>
  A filter that selects the first candidate and downloads a file named after it, a
  provider for \<open>owner/repo\<close> with a given tag, and fetch options with a given version.
\<close>

definition example_filter :: "FilterOpts \<Rightarrow> Filter" where
  "example_filter fo =
     \<lparr>FilterAssets = (\<lambda>repoName candidates.
        (case candidates of
           [] \<Rightarrow> Inl (Upstream ''no candidates'')
         | a # _ \<Rightarrow> Inr \<lparr>fa_Name = Asset_Name a, fa_URL = Asset_URL a, ExtraHeaders = Map.empty\<rparr>)),
      ProcessURL = (\<lambda>gf. Inr \<lparr>Source = ''bytes'', OutFile_Name = fa_Name gf,
                                  OutFile_PackagePath = PackagePath fo\<rparr>)\<rparr>"

definition example_provider :: "string \<Rightarrow> example_client gitHub" where
  "example_provider t =
     \<lparr>url = example_url ''/owner/repo'', client = Public None, owner = ''owner'', repo = ''repo'',
      tag = t, asset = [], token = []\<rparr>"

definition example_opts :: "string \<Rightarrow> FetchOpts" where
  "example_opts v =
     \<lparr>All = False, opts_PackagePath = [], SkipPatchCheck = False, opts_PackageName = [],
      opts_Version = v\<rparr>"

definition named :: "string \<Rightarrow> ReleaseAsset option" where
  "named n = Some \<lparr>ra_Name = Some n, ra_URL = Some (''https://api.github.com/assets/'' @ n)\<rparr>"

definition example_assets :: RepositoryRelease where
  "example_assets =
     \<lparr>TagName = Some ''v2.0.0'', HTMLURL = None,
      Assets = [named ''a.tar.gz'', named ''a-linux'', named ''a-darwin'']\<rparr>"

text \<open>
  For the generic provider: a net/url for texts of the shape \<open>https://host/path\<close>
  in which no byte but the space needs escaping (the path starts at the first \<open>/\<close>
  behind the scheme, and \<open>String\<close> gives the text with every space of the path as
  \<open>%20\<close>), an HTTP client that answers the version URL with a given body, and a
  provider with two placeholders in its template.
\<close>

definition example_parse :: "string \<Rightarrow> error + URL" where
  "example_parse s =
     (let path = dropWhile (\<lambda>c. c \<noteq> CHR ''/'') (drop 8 s)
      in Inr \<lparr>Path = path,
              URL_String = take (length s - length path) s
                @ concat (map (\<lambda>c. if c = CHR 0x20 then ''%20'' else [c]) path)\<rparr>)"

definition example_Get :: "string \<Rightarrow> string \<Rightarrow> error + (error + string)" where
  "example_Get body u =
     (if u = ''https://example.com/latest'' then Inr (Inr body)
      else Inl (Upstream ''no such host''))"

definition example_generic :: generic where
  "example_generic =
     \<lparr>generic_url = ''https://example.com/dl/{version}/tool-{version}.tar.gz'',
      generic_versionURL = \<lparr>Path = ''/latest'', URL_String = ''https://example.com/latest''\<rparr>\<rparr>"

section \<open>Properties\<close>

subsection \<open>Construction of the GitHub provider\<close>

lemma newGitHub_cases:
  fixes gh :: "'c go_github" and env :: "string \<rightharpoonup> string" and u :: URL
  defines "sp \<equiv> Split (Path u) ''/''"
  defines "tg \<equiv> (if 5 < length sp \<and> sp ! 3 = ''releases'' then sp ! 5 else [])"
  defines "ast \<equiv> (if (5 < length sp \<and> sp ! 3 = ''releases'') \<and> 6 < length sp \<and> sp ! 4 = ''download''
                   then sp ! 6 else [])"
  defines "tk \<equiv> (if length (Getenv env ''GITHUB_AUTH_TOKEN'') = 0 then Getenv env ''GITHUB_TOKEN''
                  else Getenv env ''GITHUB_AUTH_TOKEN'')"
  defines "ghes \<equiv> 0 < length (Getenv env ''GHES_BASE_URL'') \<and> 0 < length (Getenv env ''GHES_UPLOAD_URL'')
                    \<and> 0 < length (Getenv env ''GHES_AUTH_TOKEN'')"
  defines "tc \<equiv> (if ghes then Some (OAuth2Client (Getenv env ''GHES_AUTH_TOKEN''))
                  else if tk \<noteq> [] then Some (OAuth2Client tk) else None)"
  shows "newGitHub gh env u =
     (if length sp < 3
      then Inl (Errorf (''error parsing Github URL '' @ URL_String u @ '', can't find owner and repo''))
      else if ghes
      then (case NewEnterpriseClient gh (Getenv env ''GHES_BASE_URL'') (Getenv env ''GHES_UPLOAD_URL'') tc of
              Inl err \<Rightarrow> Inl (Errorf_v ''error initializing GHES client '' err)
            | Inr c \<Rightarrow> Inr \<lparr>url = u, client = c, owner = sp ! 1, repo = sp ! 2,
                             tag = tg, asset = ast, token = tk\<rparr>)
      else Inr \<lparr>url = u, client = NewClient gh tc, owner = sp ! 1, repo = sp ! 2,
                tag = tg, asset = ast, token = tk\<rparr>)"
  unfolding newGitHub_def Let_def sp_def tg_def ast_def tk_def ghes_def tc_def
  by (rule refl)

lemma newGitHub_Inr:
  assumes "newGitHub gh env u = Inr g"
  shows "3 \<le> length (Split (Path u) ''/'')"
    and "owner g = Split (Path u) ''/'' ! 1"
    and "repo g = Split (Path u) ''/'' ! 2"
    and "tag g = (if 5 < length (Split (Path u) ''/'') \<and> Split (Path u) ''/'' ! 3 = ''releases''
                  then Split (Path u) ''/'' ! 5 else [])"
    and "asset g = (if (5 < length (Split (Path u) ''/'') \<and> Split (Path u) ''/'' ! 3 = ''releases'')
                       \<and> 6 < length (Split (Path u) ''/'') \<and> Split (Path u) ''/'' ! 4 = ''download''
                    then Split (Path u) ''/'' ! 6 else [])"
    and "token g = (if length (Getenv env ''GITHUB_AUTH_TOKEN'') = 0 then Getenv env ''GITHUB_TOKEN''
                    else Getenv env ''GITHUB_AUTH_TOKEN'')"
proof -
  note c = newGitHub_cases [of gh env u]
  show l: "3 \<le> length (Split (Path u) ''/'')"
  proof (rule ccontr)
    assume "\<not> 3 \<le> length (Split (Path u) ''/'')"
    then have "length (Split (Path u) ''/'') < 3" by simp
    then have "isl (newGitHub gh env u)" by (simp only: c if_True sum.disc)
    with assms show False by simp
  qed
  then have n: "\<not> length (Split (Path u) ''/'') < 3" by simp
  have "\<exists>c. g = \<lparr>url = u, client = c, owner = Split (Path u) ''/'' ! 1, repo = Split (Path u) ''/'' ! 2,
      tag = (if 5 < length (Split (Path u) ''/'') \<and> Split (Path u) ''/'' ! 3 = ''releases''
                  then Split (Path u) ''/'' ! 5 else []),
      asset = (if (5 < length (Split (Path u) ''/'') \<and> Split (Path u) ''/'' ! 3 = ''releases'')
                       \<and> 6 < length (Split (Path u) ''/'') \<and> Split (Path u) ''/'' ! 4 = ''download''
                    then Split (Path u) ''/'' ! 6 else []),
      token = (if length (Getenv env ''GITHUB_AUTH_TOKEN'') = 0 then Getenv env ''GITHUB_TOKEN''
                    else Getenv env ''GITHUB_AUTH_TOKEN'')\<rparr>"
  proof (cases "0 < length (Getenv env ''GHES_BASE_URL'') \<and> 0 < length (Getenv env ''GHES_UPLOAD_URL'')
                    \<and> 0 < length (Getenv env ''GHES_AUTH_TOKEN'')")
    case True
    show ?thesis
      using assms unfolding c if_not_P [OF n] if_P [OF True]
      by (cases "NewEnterpriseClient gh (Getenv env ''GHES_BASE_URL'') (Getenv env ''GHES_UPLOAD_URL'')
                   (Some (OAuth2Client (Getenv env ''GHES_AUTH_TOKEN'')))")
        (simp_all only: sum.case sum.inject sum.distinct, blast)
  next
    case False
    show ?thesis
      using assms unfolding c if_not_P [OF n] if_not_P [OF False]
      by (simp only: sum.inject) blast
  qed
  then obtain c where g: "g = \<lparr>url = u, client = c, owner = Split (Path u) ''/'' ! 1, repo = Split (Path u) ''/'' ! 2,
      tag = (if 5 < length (Split (Path u) ''/'') \<and> Split (Path u) ''/'' ! 3 = ''releases''
                  then Split (Path u) ''/'' ! 5 else []),
      asset = (if (5 < length (Split (Path u) ''/'') \<and> Split (Path u) ''/'' ! 3 = ''releases'')
                       \<and> 6 < length (Split (Path u) ''/'') \<and> Split (Path u) ''/'' ! 4 = ''download''
                    then Split (Path u) ''/'' ! 6 else []),
      token = (if length (Getenv env ''GITHUB_AUTH_TOKEN'') = 0 then Getenv env ''GITHUB_TOKEN''
                    else Getenv env ''GITHUB_AUTH_TOKEN'')\<rparr>" by blast
  show "owner g = Split (Path u) ''/'' ! 1" by (subst g) (simp only: gitHub.simps)
  show "repo g = Split (Path u) ''/'' ! 2" by (subst g) (simp only: gitHub.simps)
  show "tag g = (if 5 < length (Split (Path u) ''/'') \<and> Split (Path u) ''/'' ! 3 = ''releases''
                  then Split (Path u) ''/'' ! 5 else [])" by (subst g) (simp only: gitHub.simps)
  show "asset g = (if (5 < length (Split (Path u) ''/'') \<and> Split (Path u) ''/'' ! 3 = ''releases'')
                       \<and> 6 < length (Split (Path u) ''/'') \<and> Split (Path u) ''/'' ! 4 = ''download''
                    then Split (Path u) ''/'' ! 6 else [])" by (subst g) (simp only: gitHub.simps)
  show "token g = (if length (Getenv env ''GITHUB_AUTH_TOKEN'') = 0 then Getenv env ''GITHUB_TOKEN''
                    else Getenv env ''GITHUB_AUTH_TOKEN'')" by (subst g) (simp only: gitHub.simps)
qed

lemma Split_examples:
  "Split ''/owner/repo'' ''/'' = [[], ''owner'', ''repo'']"
  "Split ''/owner/repo/releases/tag/v1.2.3'' ''/'' = [[], ''owner'', ''repo'', ''releases'', ''tag'', ''v1.2.3'']"
  "Split ''/owner/repo/releases/download/v1.2.3/tool-linux-amd64'' ''/''
     = [[], ''owner'', ''repo'', ''releases'', ''download'', ''v1.2.3'', ''tool-linux-amd64'']"
  "Split ''/owner'' ''/'' = [[], ''owner'']"
  by simp_all

text \<open>
  C1. \<open>newGitHub\<close> splits the path of the URL at \<open>/\<close>. Fewer than three segments
  make construction fail with the parse error. A provider that is constructed has the
  second and third segment as owner and repo; when the fourth segment is \<open>releases\<close>
  and a sixth is present, the sixth is its tag, and when moreover the fifth is
  \<open>download\<close> and a seventh is present, the seventh is its asset; tag and asset are
  empty otherwise, as for the path \<open>/owner/repo\<close>. With three segments or more,
  construction succeeds unless the enterprise client is asked for.
\<close>

theorem newGitHub_path_segments:
  "(length (Split (Path u) ''/'') < 3 \<longrightarrow>
      newGitHub gh env u =
        Inl (Errorf (''error parsing Github URL '' @ URL_String u @ '', can't find owner and repo'')))
   \<and> (newGitHub gh env u = Inr g \<longrightarrow>
        3 \<le> length (Split (Path u) ''/'')
        \<and> owner g = Split (Path u) ''/'' ! 1
        \<and> repo g = Split (Path u) ''/'' ! 2
        \<and> (5 < length (Split (Path u) ''/'') \<and> Split (Path u) ''/'' ! 3 = ''releases'' \<longrightarrow>
              tag g = Split (Path u) ''/'' ! 5
              \<and> (6 < length (Split (Path u) ''/'') \<and> Split (Path u) ''/'' ! 4 = ''download'' \<longrightarrow>
                    asset g = Split (Path u) ''/'' ! 6)
              \<and> (\<not> (6 < length (Split (Path u) ''/'') \<and> Split (Path u) ''/'' ! 4 = ''download'') \<longrightarrow>
                    asset g = []))
        \<and> (\<not> (5 < length (Split (Path u) ''/'') \<and> Split (Path u) ''/'' ! 3 = ''releases'') \<longrightarrow>
              tag g = [] \<and> asset g = []))
   \<and> (Path u = ''/owner/repo'' \<and> newGitHub gh env u = Inr g \<longrightarrow>
        owner g = ''owner'' \<and> repo g = ''repo'' \<and> tag g = [] \<and> asset g = [])
   \<and> (3 \<le> length (Split (Path u) ''/'')
        \<and> (Getenv env ''GHES_BASE_URL'' = [] \<or> Getenv env ''GHES_UPLOAD_URL'' = []
             \<or> Getenv env ''GHES_AUTH_TOKEN'' = []) \<longrightarrow>
        (\<exists>g'. newGitHub gh env u = Inr g'))"
proof (intro conjI impI)
  show "newGitHub gh env u =
        Inl (Errorf (''error parsing Github URL '' @ URL_String u @ '', can't find owner and repo''))"
    if "length (Split (Path u) ''/'') < 3"
    using that by (simp only: newGitHub_cases if_True)
next
  assume a: "newGitHub gh env u = Inr g"
  note f = newGitHub_Inr [OF a]
  show "3 \<le> length (Split (Path u) ''/'')" by (rule f(1))
  show "owner g = Split (Path u) ''/'' ! 1" by (rule f(2))
  show "repo g = Split (Path u) ''/'' ! 2" by (rule f(3))
  show "tag g = Split (Path u) ''/'' ! 5"
    if "5 < length (Split (Path u) ''/'') \<and> Split (Path u) ''/'' ! 3 = ''releases''"
    using that by (auto simp: f(4))
  show "asset g = Split (Path u) ''/'' ! 6"
    if "5 < length (Split (Path u) ''/'') \<and> Split (Path u) ''/'' ! 3 = ''releases''"
      "6 < length (Split (Path u) ''/'') \<and> Split (Path u) ''/'' ! 4 = ''download''"
    using that by (auto simp: f(5))
  show "asset g = []"
    if "5 < length (Split (Path u) ''/'') \<and> Split (Path u) ''/'' ! 3 = ''releases''"
      "\<not> (6 < length (Split (Path u) ''/'') \<and> Split (Path u) ''/'' ! 4 = ''download'')"
    using that by (auto simp: f(5))
  show "tag g = []"
    if "\<not> (5 < length (Split (Path u) ''/'') \<and> Split (Path u) ''/'' ! 3 = ''releases'')"
    using that by (auto simp: f(4))
  show "asset g = []"
    if "\<not> (5 < length (Split (Path u) ''/'') \<and> Split (Path u) ''/'' ! 3 = ''releases'')"
    using that by (auto simp: f(5))
next
  assume a: "Path u = ''/owner/repo'' \<and> newGitHub gh env u = Inr g"
  then have s: "Split (Path u) ''/'' = [[], ''owner'', ''repo'']" by simp
  note f = newGitHub_Inr [of gh env u g, unfolded s]
  from a show "owner g = ''owner''" by (simp add: f(2))
  from a show "repo g = ''repo''" by (simp add: f(3))
  from a show "tag g = []" by (simp add: f(4))
  from a show "asset g = []" by (simp add: f(5))
next
  assume h: "3 \<le> length (Split (Path u) ''/'')
        \<and> (Getenv env ''GHES_BASE_URL'' = [] \<or> Getenv env ''GHES_UPLOAD_URL'' = []
             \<or> Getenv env ''GHES_AUTH_TOKEN'' = [])"
  then have n: "\<not> length (Split (Path u) ''/'') < 3" by simp
  from h have m: "\<not> (0 < length (Getenv env ''GHES_BASE_URL'') \<and> 0 < length (Getenv env ''GHES_UPLOAD_URL'')
                    \<and> 0 < length (Getenv env ''GHES_AUTH_TOKEN''))" by auto
  show "\<exists>g'. newGitHub gh env u = Inr g'"
    unfolding newGitHub_cases if_not_P [OF n] if_not_P [OF m] by blast
qed

theorem newGitHub_path_segments_witness:
  "newGitHub (example_github (None, None, None)) Map.empty (example_url ''/owner'')
     = Inl (Errorf ''error parsing Github URL https://github.com/owner, can't find owner and repo'')
   \<and> (\<exists>g. newGitHub (example_github (None, None, None)) Map.empty
             (example_url ''/owner/repo/releases/download/v1.2.3/tool-linux-amd64'') = Inr g
          \<and> owner g = ''owner'' \<and> repo g = ''repo'' \<and> tag g = ''v1.2.3''
          \<and> asset g = ''tool-linux-amd64'')
   \<and> (\<exists>g. newGitHub (example_github (None, None, None)) Map.empty
             (example_url ''/owner/repo/releases/tag/v1.2.3'') = Inr g
          \<and> owner g = ''owner'' \<and> repo g = ''repo'' \<and> tag g = ''v1.2.3'' \<and> asset g = [])
   \<and> (\<exists>g. newGitHub (example_github (None, None, None)) Map.empty
             (example_url ''/owner/repo'') = Inr g
          \<and> owner g = ''owner'' \<and> repo g = ''repo'' \<and> tag g = [] \<and> asset g = [])"
proof (intro conjI)
  let ?gh = "example_github (None, None, None)"
  let ?env = "Map.empty :: string \<rightharpoonup> string"
  have e: "Getenv ?env ''GHES_BASE_URL'' = []" by (simp add: Getenv_def)
  show "newGitHub ?gh ?env (example_url ''/owner'')
     = Inl (Errorf ''error parsing Github URL https://github.com/owner, can't find owner and repo'')"
    using newGitHub_path_segments [of "example_url ''/owner''" ?gh ?env]
    by (simp add: example_url_def)
  have r: "\<exists>g. newGitHub ?gh ?env (example_url p) = Inr g
          \<and> owner g = Split p ''/'' ! 1 \<and> repo g = Split p ''/'' ! 2
          \<and> (5 < length (Split p ''/'') \<and> Split p ''/'' ! 3 = ''releases'' \<longrightarrow>
                tag g = Split p ''/'' ! 5
                \<and> (6 < length (Split p ''/'') \<and> Split p ''/'' ! 4 = ''download'' \<longrightarrow>
                      asset g = Split p ''/'' ! 6)
                \<and> (\<not> (6 < length (Split p ''/'') \<and> Split p ''/'' ! 4 = ''download'') \<longrightarrow>
                      asset g = []))
          \<and> (\<not> (5 < length (Split p ''/'') \<and> Split p ''/'' ! 3 = ''releases'') \<longrightarrow>
                tag g = [] \<and> asset g = [])"
    if l: "3 \<le> length (Split p ''/'')" for p
  proof -
    have "\<exists>g. newGitHub ?gh ?env (example_url p) = Inr g"
      using newGitHub_path_segments [of "example_url p" ?gh ?env] l e
      by (simp add: example_url_def)
    then obtain g where g: "newGitHub ?gh ?env (example_url p) = Inr g" by blast
    show ?thesis
      using newGitHub_path_segments [of "example_url p" ?gh ?env g] g
      by (intro exI [of _ g]) (simp add: example_url_def)
  qed
  show "\<exists>g. newGitHub ?gh ?env (example_url ''/owner/repo/releases/download/v1.2.3/tool-linux-amd64'') = Inr g
          \<and> owner g = ''owner'' \<and> repo g = ''repo'' \<and> tag g = ''v1.2.3''
          \<and> asset g = ''tool-linux-amd64''"
    using r [of "''/owner/repo/releases/download/v1.2.3/tool-linux-amd64''"]
    unfolding Split_examples by simp
  show "\<exists>g. newGitHub ?gh ?env (example_url ''/owner/repo/releases/tag/v1.2.3'') = Inr g
          \<and> owner g = ''owner'' \<and> repo g = ''repo'' \<and> tag g = ''v1.2.3'' \<and> asset g = []"
    using r [of "''/owner/repo/releases/tag/v1.2.3''"]
    unfolding Split_examples by simp
  show "\<exists>g. newGitHub ?gh ?env (example_url ''/owner/repo'') = Inr g
          \<and> owner g = ''owner'' \<and> repo g = ''repo'' \<and> tag g = [] \<and> asset g = []"
    using r [of "''/owner/repo''"]
    unfolding Split_examples by simp
qed

text \<open>
  C6. The token of a constructed provider is the value of \<open>GITHUB_AUTH_TOKEN\<close> when
  that is not empty, the value of \<open>GITHUB_TOKEN\<close> otherwise, which is empty when
  neither variable is set. With \<open>GITHUB_AUTH_TOKEN=A\<close> and \<open>GITHUB_TOKEN=B\<close> both set
  it is \<open>A\<close>.
\<close>

theorem newGitHub_token_precedence:
  "(newGitHub gh env u = Inr g \<longrightarrow>
      token g = (if Getenv env ''GITHUB_AUTH_TOKEN'' \<noteq> [] then Getenv env ''GITHUB_AUTH_TOKEN''
                 else Getenv env ''GITHUB_TOKEN''))
   \<and> (newGitHub gh env u = Inr g \<and> env ''GITHUB_AUTH_TOKEN'' = Some A \<and> A \<noteq> []
        \<and> env ''GITHUB_TOKEN'' = Some B \<longrightarrow> token g = A)
   \<and> (newGitHub gh env u = Inr g \<and> env ''GITHUB_AUTH_TOKEN'' = None
        \<and> env ''GITHUB_TOKEN'' = None \<longrightarrow> token g = [])"
proof (intro conjI impI)
  assume a: "newGitHub gh env u = Inr g"
  show "token g = (if Getenv env ''GITHUB_AUTH_TOKEN'' \<noteq> [] then Getenv env ''GITHUB_AUTH_TOKEN''
                 else Getenv env ''GITHUB_TOKEN'')"
    by (simp add: newGitHub_Inr(6) [OF a])
next
  assume a: "newGitHub gh env u = Inr g \<and> env ''GITHUB_AUTH_TOKEN'' = Some A \<and> A \<noteq> []
        \<and> env ''GITHUB_TOKEN'' = Some B"
  then have "newGitHub gh env u = Inr g" by simp
  from newGitHub_Inr(6) [OF this] a show "token g = A" by (simp add: Getenv_def)
next
  assume a: "newGitHub gh env u = Inr g \<and> env ''GITHUB_AUTH_TOKEN'' = None
        \<and> env ''GITHUB_TOKEN'' = None"
  then have "newGitHub gh env u = Inr g" by simp
  from newGitHub_Inr(6) [OF this] a show "token g = []" by (simp add: Getenv_def)
qed

lemma newGitHub_succeeds:
  assumes "3 \<le> length (Split (Path u) ''/'')"
    and "Getenv env ''GHES_BASE_URL'' = [] \<or> Getenv env ''GHES_UPLOAD_URL'' = []
           \<or> Getenv env ''GHES_AUTH_TOKEN'' = []"
  shows "\<exists>g. newGitHub gh env u = Inr g"
proof -
  from assms(1) have n: "\<not> length (Split (Path u) ''/'') < 3" by simp
  from assms(2) have m: "\<not> (0 < length (Getenv env ''GHES_BASE_URL'') \<and> 0 < length (Getenv env ''GHES_UPLOAD_URL'')
                    \<and> 0 < length (Getenv env ''GHES_AUTH_TOKEN''))" by auto
  show ?thesis
    unfolding newGitHub_cases if_not_P [OF n] if_not_P [OF m] by blast
qed

lemma example_url_segments: "3 \<le> length (Split (Path (example_url ''/owner/repo'')) ''/'')"
  by (simp add: example_url_def)

theorem newGitHub_token_precedence_witness:
  "(\<exists>g. newGitHub (example_github (None, None, None))
            [''GITHUB_AUTH_TOKEN'' \<mapsto> ''A'', ''GITHUB_TOKEN'' \<mapsto> ''B'']
            (example_url ''/owner/repo'') = Inr g \<and> token g = ''A'')
   \<and> (\<exists>g. newGitHub (example_github (None, None, None))
            [''GITHUB_TOKEN'' \<mapsto> ''B''] (example_url ''/owner/repo'') = Inr g \<and> token g = ''B'')
   \<and> (\<exists>g. newGitHub (example_github (None, None, None))
            Map.empty (example_url ''/owner/repo'') = Inr g \<and> token g = [])"
proof (intro conjI)
  let ?gh = "example_github (None, None, None)"
  let ?u = "example_url ''/owner/repo''"
  let ?e1 = "[''GITHUB_AUTH_TOKEN'' \<mapsto> ''A'', ''GITHUB_TOKEN'' \<mapsto> ''B'']"
  let ?e2 = "[''GITHUB_TOKEN'' \<mapsto> ''B'']"
  let ?e3 = "Map.empty :: string \<rightharpoonup> string"
  obtain g1 where g1: "newGitHub ?gh ?e1 ?u = Inr g1"
    using newGitHub_succeeds [OF example_url_segments, of ?e1 ?gh] by (auto simp: Getenv_def)
  obtain g2 where g2: "newGitHub ?gh ?e2 ?u = Inr g2"
    using newGitHub_succeeds [OF example_url_segments, of ?e2 ?gh] by (auto simp: Getenv_def)
  obtain g3 where g3: "newGitHub ?gh ?e3 ?u = Inr g3"
    using newGitHub_succeeds [OF example_url_segments, of ?e3 ?gh] by (auto simp: Getenv_def)
  show "\<exists>g. newGitHub ?gh ?e1 ?u = Inr g \<and> token g = ''A''"
    using newGitHub_token_precedence [of ?gh ?e1 ?u g1 "''A''" "''B''"] g1 by (simp add: Getenv_def)
  show "\<exists>g. newGitHub ?gh ?e2 ?u = Inr g \<and> token g = ''B''"
    using newGitHub_token_precedence [of ?gh ?e2 ?u g2] g2 by (simp add: Getenv_def)
  show "\<exists>g. newGitHub ?gh ?e3 ?u = Inr g \<and> token g = []"
    using newGitHub_token_precedence [of ?gh ?e3 ?u g3] g3 by (simp add: Getenv_def)
qed

text \<open>
  C8. With \<open>GHES_BASE_URL\<close>, \<open>GHES_UPLOAD_URL\<close> and \<open>GHES_AUTH_TOKEN\<close> all set, the
  enterprise constructor is called with the two URLs and an OAuth2 client over
  \<open>GHES_AUTH_TOKEN\<close>, whatever the personal tokens are. Its failure makes
  \<open>newGitHub\<close> fail; on its success the provider holds the client it built, and the
  provider's token is still the personal one, from \<open>GITHUB_AUTH_TOKEN\<close> or
  \<open>GITHUB_TOKEN\<close>.
\<close>

theorem newGitHub_enterprise:
  assumes "Getenv env ''GHES_BASE_URL'' \<noteq> []"
    and "Getenv env ''GHES_UPLOAD_URL'' \<noteq> []"
    and "Getenv env ''GHES_AUTH_TOKEN'' \<noteq> []"
    and "3 \<le> length (Split (Path u) ''/'')"
  shows "(case NewEnterpriseClient gh (Getenv env ''GHES_BASE_URL'') (Getenv env ''GHES_UPLOAD_URL'')
               (Some (OAuth2Client (Getenv env ''GHES_AUTH_TOKEN''))) of
            Inl err \<Rightarrow> newGitHub gh env u = Inl (Errorf_v ''error initializing GHES client '' err)
          | Inr c \<Rightarrow>
              (\<exists>g. newGitHub gh env u = Inr g \<and> client g = c
                 \<and> token g = (if Getenv env ''GITHUB_AUTH_TOKEN'' \<noteq> []
                              then Getenv env ''GITHUB_AUTH_TOKEN''
                              else Getenv env ''GITHUB_TOKEN'')))"
proof -
  from assms(4) have n: "\<not> length (Split (Path u) ''/'') < 3" by simp
  from assms(1-3) have m: "0 < length (Getenv env ''GHES_BASE_URL'') \<and> 0 < length (Getenv env ''GHES_UPLOAD_URL'')
                    \<and> 0 < length (Getenv env ''GHES_AUTH_TOKEN'')" by simp
  show ?thesis
    unfolding newGitHub_cases if_not_P [OF n] if_P [OF m]
    by (cases "NewEnterpriseClient gh (Getenv env ''GHES_BASE_URL'') (Getenv env ''GHES_UPLOAD_URL'')
               (Some (OAuth2Client (Getenv env ''GHES_AUTH_TOKEN'')))") auto
qed

theorem newGitHub_enterprise_witness:
  "(\<exists>g. newGitHub (example_github (None, None, None))
            [''GHES_BASE_URL'' \<mapsto> ''https://ghes.example.com/'',
             ''GHES_UPLOAD_URL'' \<mapsto> ''https://ghes.example.com/upload/'',
             ''GHES_AUTH_TOKEN'' \<mapsto> ''E'', ''GITHUB_AUTH_TOKEN'' \<mapsto> ''A'', ''GITHUB_TOKEN'' \<mapsto> ''B'']
            (example_url ''/owner/repo'') = Inr g
          \<and> client g = Enterprise ''https://ghes.example.com/'' ''https://ghes.example.com/upload/''
                         (Some (OAuth2Client ''E''))
          \<and> token g = ''A'')
   \<and> newGitHub (example_github (None, None, None))
            [''GHES_BASE_URL'' \<mapsto> ''%'',
             ''GHES_UPLOAD_URL'' \<mapsto> ''https://ghes.example.com/upload/'',
             ''GHES_AUTH_TOKEN'' \<mapsto> ''E'', ''GITHUB_AUTH_TOKEN'' \<mapsto> ''A'']
            (example_url ''/owner/repo'')
       = Inl (Errorf_v ''error initializing GHES client '' (Upstream ''invalid URL escape''))"
proof (intro conjI)
  have s: "3 \<le> length (Split (Path (example_url ''/owner/repo'')) ''/'')"
    by (simp add: example_url_def)
  show "\<exists>g. newGitHub (example_github (None, None, None))
            [''GHES_BASE_URL'' \<mapsto> ''https://ghes.example.com/'',
             ''GHES_UPLOAD_URL'' \<mapsto> ''https://ghes.example.com/upload/'',
             ''GHES_AUTH_TOKEN'' \<mapsto> ''E'', ''GITHUB_AUTH_TOKEN'' \<mapsto> ''A'', ''GITHUB_TOKEN'' \<mapsto> ''B'']
            (example_url ''/owner/repo'') = Inr g
          \<and> client g = Enterprise ''https://ghes.example.com/'' ''https://ghes.example.com/upload/''
                         (Some (OAuth2Client ''E''))
          \<and> token g = ''A''"
    using newGitHub_enterprise [OF _ _ _ s, of "[''GHES_BASE_URL'' \<mapsto> ''https://ghes.example.com/'',
             ''GHES_UPLOAD_URL'' \<mapsto> ''https://ghes.example.com/upload/'',
             ''GHES_AUTH_TOKEN'' \<mapsto> ''E'', ''GITHUB_AUTH_TOKEN'' \<mapsto> ''A'', ''GITHUB_TOKEN'' \<mapsto> ''B'']"
             "example_github (None, None, None)"]
    by (simp add: Getenv_def example_github_def)
  show "newGitHub (example_github (None, None, None))
            [''GHES_BASE_URL'' \<mapsto> ''%'',
             ''GHES_UPLOAD_URL'' \<mapsto> ''https://ghes.example.com/upload/'',
             ''GHES_AUTH_TOKEN'' \<mapsto> ''E'', ''GITHUB_AUTH_TOKEN'' \<mapsto> ''A'']
            (example_url ''/owner/repo'')
       = Inl (Errorf_v ''error initializing GHES client '' (Upstream ''invalid URL escape''))"
    using newGitHub_enterprise [OF _ _ _ s, of "[''GHES_BASE_URL'' \<mapsto> ''%'',
             ''GHES_UPLOAD_URL'' \<mapsto> ''https://ghes.example.com/upload/'',
             ''GHES_AUTH_TOKEN'' \<mapsto> ''E'', ''GITHUB_AUTH_TOKEN'' \<mapsto> ''A'']"
             "example_github (None, None, None)"]
    by (simp add: Getenv_def example_github_def)
qed

subsection \<open>Candidate assets\<close>

lemma getCandidates_loop_all:
  "userAsset = [] \<or> userAsset \<notin> GetName ` set xs \<Longrightarrow>
   getCandidates_loop xs userAsset acc =
     (acc @ map (\<lambda>a. \<lparr>Asset_Name = GetName a, Asset_URL = GetURL a\<rparr>) xs, False)"
  by (induction xs arbitrary: acc) auto

lemma getCandidates_loop_found:
  "userAsset \<noteq> [] \<Longrightarrow> GetName a = userAsset \<Longrightarrow> userAsset \<notin> GetName ` set pre \<Longrightarrow>
   getCandidates_loop (pre @ a # post) userAsset acc =
     ([\<lparr>Asset_Name = GetName a, Asset_URL = GetURL a\<rparr>], True)"
  by (induction pre arbitrary: acc) auto

text \<open>
  C3. The candidates that \<open>Fetch\<close> hands to the selection collaborator. For a
  non-empty requested name that is the name of some asset of the release,
  \<open>getCandidates\<close> gives the first asset of that name alone and logs nothing; for a
  non-empty name that no asset has, it gives all assets in release order and logs a
  warning; for no requested name, it gives all assets. Once the release is looked up,
  \<open>Fetch\<close> calls \<open>FilterAssets\<close> with the provider's repo and exactly the candidates
  that \<open>getCandidates\<close> gives for the assets of the release and the asset name of
  the provider, appends the warning to its log, and returns what the selection and
  download collaborators decide: the warning makes no error.
\<close>

theorem getCandidates_selection:
  "(userAsset \<noteq> [] \<and> userAsset \<in> GetName ` set githubAssets \<longrightarrow>
      (\<exists>pre a post. githubAssets = pre @ a # post \<and> GetName a = userAsset
          \<and> userAsset \<notin> GetName ` set pre
          \<and> getCandidates githubAssets userAsset =
              ([\<lparr>Asset_Name = GetName a, Asset_URL = GetURL a\<rparr>], [])))
   \<and> (userAsset \<noteq> [] \<and> userAsset \<notin> GetName ` set githubAssets \<longrightarrow>
        getCandidates githubAssets userAsset =
          (map (\<lambda>a. \<lparr>Asset_Name = GetName a, Asset_URL = GetURL a\<rparr>) githubAssets,
           [Warnf (''asset '' @ userAsset @ '' not found in release'')]))
   \<and> (userAsset = [] \<longrightarrow>
        getCandidates githubAssets userAsset =
          (map (\<lambda>a. \<lparr>Asset_Name = GetName a, Asset_URL = GetURL a\<rparr>) githubAssets, []))
   \<and> (Fetch_release gh g opts = (Ok (Some rel, None), g', l0) \<longrightarrow>
        (let candidates = fst (getCandidates (Assets rel) (asset g'));
             warnings = snd (getCandidates (Assets rel) (asset g'));
             f = NewFilter \<lparr>SkipScoring = All opts, PackagePath = opts_PackagePath opts,
                            SkipPathCheck = SkipPatchCheck opts,
                            PackageName = opts_PackageName opts\<rparr>
         in (case FilterAssets f (repo g') candidates of
               Inl e \<Rightarrow> Fetch gh NewFilter g opts = (Err e, g', l0 @ warnings)
             | Inr gf0 \<Rightarrow>
                 (let gf1 = gf0\<lparr>ExtraHeaders := [''Accept'' \<mapsto> ''application/octet-stream'']\<rparr>;
                      gf = (if token g' \<noteq> []
                            then gf1\<lparr>ExtraHeaders :=
                                   (ExtraHeaders gf1)(''Authorization'' \<mapsto> ''token '' @ token g')\<rparr>
                            else gf1)
                  in (case ProcessURL f gf of
                        Inl e \<Rightarrow> Fetch gh NewFilter g opts = (Err e, g', l0 @ warnings)
                      | Inr outFile \<Rightarrow>
                          Fetch gh NewFilter g opts =
                            (Ok \<lparr>Data = Source outFile, File_Name = OutFile_Name outFile,
                                 File_Version = GetTagName (Some rel),
                                 File_PackagePath = OutFile_PackagePath outFile\<rparr>,
                             g', l0 @ warnings))))))"
proof (intro conjI impI)
  assume h: "userAsset \<noteq> [] \<and> userAsset \<in> GetName ` set githubAssets"
  then have "\<exists>x \<in> set githubAssets. GetName x = userAsset" by auto
  then obtain pre a post where d: "githubAssets = pre @ a # post" "GetName a = userAsset"
      "\<forall>y \<in> set pre. GetName y \<noteq> userAsset"
    using split_list_first_prop [of githubAssets "\<lambda>x. GetName x = userAsset"] by blast
  then have n: "userAsset \<notin> GetName ` set pre" by auto
  have "getCandidates githubAssets userAsset =
          ([\<lparr>Asset_Name = GetName a, Asset_URL = GetURL a\<rparr>], [])"
    using h d(2) n by (simp add: getCandidates_def d(1) getCandidates_loop_found)
  with d(1,2) n show "\<exists>pre a post. githubAssets = pre @ a # post \<and> GetName a = userAsset
          \<and> userAsset \<notin> GetName ` set pre
          \<and> getCandidates githubAssets userAsset =
              ([\<lparr>Asset_Name = GetName a, Asset_URL = GetURL a\<rparr>], [])" by blast
next
  assume "userAsset \<noteq> [] \<and> userAsset \<notin> GetName ` set githubAssets"
  then show "getCandidates githubAssets userAsset =
          (map (\<lambda>a. \<lparr>Asset_Name = GetName a, Asset_URL = GetURL a\<rparr>) githubAssets,
           [Warnf (''asset '' @ userAsset @ '' not found in release'')])"
    by (simp add: getCandidates_def getCandidates_loop_all)
next
  assume "userAsset = []"
  then show "getCandidates githubAssets userAsset =
          (map (\<lambda>a. \<lparr>Asset_Name = GetName a, Asset_URL = GetURL a\<rparr>) githubAssets, [])"
    by (simp add: getCandidates_def getCandidates_loop_all)
next
  assume h: "Fetch_release gh g opts = (Ok (Some rel, None), g', l0)"
  show "let candidates = fst (getCandidates (Assets rel) (asset g'));
             warnings = snd (getCandidates (Assets rel) (asset g'));
             f = NewFilter \<lparr>SkipScoring = All opts, PackagePath = opts_PackagePath opts,
                            SkipPathCheck = SkipPatchCheck opts,
                            PackageName = opts_PackageName opts\<rparr>
         in (case FilterAssets f (repo g') candidates of
               Inl e \<Rightarrow> Fetch gh NewFilter g opts = (Err e, g', l0 @ warnings)
             | Inr gf0 \<Rightarrow>
                 (let gf1 = gf0\<lparr>ExtraHeaders := [''Accept'' \<mapsto> ''application/octet-stream'']\<rparr>;
                      gf = (if token g' \<noteq> []
                            then gf1\<lparr>ExtraHeaders :=
                                   (ExtraHeaders gf1)(''Authorization'' \<mapsto> ''token '' @ token g')\<rparr>
                            else gf1)
                  in (case ProcessURL f gf of
                        Inl e \<Rightarrow> Fetch gh NewFilter g opts = (Err e, g', l0 @ warnings)
                      | Inr outFile \<Rightarrow>
                          Fetch gh NewFilter g opts =
                            (Ok \<lparr>Data = Source outFile, File_Name = OutFile_Name outFile,
                                 File_Version = GetTagName (Some rel),
                                 File_PackagePath = OutFile_PackagePath outFile\<rparr>,
                             g', l0 @ warnings))))"
    by (auto simp: Fetch_def h Fetch_asset_def split_beta Let_def split: sum.split)
qed

theorem getCandidates_selection_witness:
  "getCandidates [named ''a.tar.gz'', named ''a-linux'', named ''a-darwin''] ''a-linux''
     = ([\<lparr>Asset_Name = ''a-linux'', Asset_URL = ''https://api.github.com/assets/a-linux''\<rparr>], [])
   \<and> getCandidates [named ''a.tar.gz'', named ''a-linux'', named ''a-darwin''] ''missing''
     = ([\<lparr>Asset_Name = ''a.tar.gz'', Asset_URL = ''https://api.github.com/assets/a.tar.gz''\<rparr>,
         \<lparr>Asset_Name = ''a-linux'', Asset_URL = ''https://api.github.com/assets/a-linux''\<rparr>,
         \<lparr>Asset_Name = ''a-darwin'', Asset_URL = ''https://api.github.com/assets/a-darwin''\<rparr>],
        [Warnf ''asset missing not found in release''])
   \<and> getCandidates [named ''a.tar.gz'', named ''a-linux'', named ''a-darwin''] []
     = ([\<lparr>Asset_Name = ''a.tar.gz'', Asset_URL = ''https://api.github.com/assets/a.tar.gz''\<rparr>,
         \<lparr>Asset_Name = ''a-linux'', Asset_URL = ''https://api.github.com/assets/a-linux''\<rparr>,
         \<lparr>Asset_Name = ''a-darwin'', Asset_URL = ''https://api.github.com/assets/a-darwin''\<rparr>], [])
   \<and> Fetch (example_github (Some example_assets, Some \<lparr>StatusCode = 200\<rparr>, None)) example_filter
       (example_provider []\<lparr>asset := ''a-linux''\<rparr>) (example_opts [])
     = (Ok \<lparr>Data = ''bytes'', File_Name = ''a-linux'', File_Version = ''v2.0.0'',
            File_PackagePath = []\<rparr>,
        example_provider []\<lparr>asset := ''a-linux''\<rparr>,
        [Infof ''Getting latest release for owner/repo''])
   \<and> Fetch (example_github (Some example_assets, Some \<lparr>StatusCode = 200\<rparr>, None)) example_filter
       (example_provider []\<lparr>asset := ''missing''\<rparr>) (example_opts [])
     = (Ok \<lparr>Data = ''bytes'', File_Name = ''a.tar.gz'', File_Version = ''v2.0.0'',
            File_PackagePath = []\<rparr>,
        example_provider []\<lparr>asset := ''missing''\<rparr>,
        [Infof ''Getting latest release for owner/repo'',
         Warnf ''asset missing not found in release''])"
proof -
  let ?as = "[named ''a.tar.gz'', named ''a-linux'', named ''a-darwin'']"
  let ?gh = "example_github (Some example_assets, Some \<lparr>StatusCode = 200\<rparr>, None)"
  have c1: "getCandidates ?as ''a-linux''
     = ([\<lparr>Asset_Name = ''a-linux'', Asset_URL = ''https://api.github.com/assets/a-linux''\<rparr>], [])"
    using getCandidates_selection [where userAsset = "''a-linux''" and githubAssets = ?as,
        THEN conjunct1]
    by (auto simp: named_def GetName_def GetURL_def Cons_eq_append_conv)
  have c2: "getCandidates ?as ''missing''
     = ([\<lparr>Asset_Name = ''a.tar.gz'', Asset_URL = ''https://api.github.com/assets/a.tar.gz''\<rparr>,
         \<lparr>Asset_Name = ''a-linux'', Asset_URL = ''https://api.github.com/assets/a-linux''\<rparr>,
         \<lparr>Asset_Name = ''a-darwin'', Asset_URL = ''https://api.github.com/assets/a-darwin''\<rparr>],
        [Warnf ''asset missing not found in release''])"
    using getCandidates_selection [where userAsset = "''missing''" and githubAssets = ?as,
        THEN conjunct2, THEN conjunct1]
    by (auto simp: named_def GetName_def GetURL_def)
  have c3: "getCandidates ?as []
     = ([\<lparr>Asset_Name = ''a.tar.gz'', Asset_URL = ''https://api.github.com/assets/a.tar.gz''\<rparr>,
         \<lparr>Asset_Name = ''a-linux'', Asset_URL = ''https://api.github.com/assets/a-linux''\<rparr>,
         \<lparr>Asset_Name = ''a-darwin'', Asset_URL = ''https://api.github.com/assets/a-darwin''\<rparr>], [])"
    using getCandidates_selection [where userAsset = "[]" and githubAssets = ?as,
        THEN conjunct2, THEN conjunct2, THEN conjunct1]
    by (auto simp: named_def GetName_def GetURL_def)
  have r: "Fetch_release ?gh (example_provider []\<lparr>asset := n\<rparr>) (example_opts [])
      = (Ok (Some example_assets, None), example_provider []\<lparr>asset := n\<rparr>,
         [Infof ''Getting latest release for owner/repo''])" for n
    by (simp add: Fetch_release_def example_github_def example_provider_def example_opts_def
        StatusNotFound_def)
  have f: "Assets example_assets = ?as" "GetTagName (Some example_assets) = ''v2.0.0''"
    "asset (example_provider []\<lparr>asset := n\<rparr>) = n"
    "token (example_provider []\<lparr>asset := n\<rparr>) = []" for n
    by (simp_all add: example_assets_def GetTagName_def example_provider_def)
  have d1: "Fetch ?gh example_filter (example_provider []\<lparr>asset := ''a-linux''\<rparr>) (example_opts [])
     = (Ok \<lparr>Data = ''bytes'', File_Name = ''a-linux'', File_Version = ''v2.0.0'',
            File_PackagePath = []\<rparr>,
        example_provider []\<lparr>asset := ''a-linux''\<rparr>,
        [Infof ''Getting latest release for owner/repo''])"
    using getCandidates_selection [where gh = ?gh and g = "example_provider []\<lparr>asset := ''a-linux''\<rparr>"
        and opts = "example_opts []" and NewFilter = example_filter,
        THEN conjunct2, THEN conjunct2, THEN conjunct2, rule_format, OF r]
    unfolding f c1 by (simp add: example_filter_def example_opts_def)
  have d2: "Fetch ?gh example_filter (example_provider []\<lparr>asset := ''missing''\<rparr>) (example_opts [])
     = (Ok \<lparr>Data = ''bytes'', File_Name = ''a.tar.gz'', File_Version = ''v2.0.0'',
            File_PackagePath = []\<rparr>,
        example_provider []\<lparr>asset := ''missing''\<rparr>,
        [Infof ''Getting latest release for owner/repo'',
         Warnf ''asset missing not found in release''])"
    using getCandidates_selection [where gh = ?gh and g = "example_provider []\<lparr>asset := ''missing''\<rparr>"
        and opts = "example_opts []" and NewFilter = example_filter,
        THEN conjunct2, THEN conjunct2, THEN conjunct2, rule_format, OF r]
    unfolding f c2 by (simp add: example_filter_def example_opts_def)
  from c1 c2 c3 d1 d2 show ?thesis by (intro conjI)
qed

subsection \<open>Fetch of the GitHub provider\<close>

lemma Fetch_release_by_tag:
  assumes "tag g \<noteq> [] \<or> opts_Version opts \<noteq> []"
  shows "Fetch_release gh g opts =
     (let g' = (if opts_Version opts \<noteq> [] then g\<lparr>tag := opts_Version opts\<rparr> else g);
          r = GetReleaseByTag gh (client g) (owner g) (repo g) (tag g')
      in (Ok (fst r, snd (snd r)), g',
          [Infof (''Getting '' @ tag g' @ '' release for '' @ owner g @ ''/'' @ repo g)]))"
  using assms by (simp add: Fetch_release_def Let_def split_beta)

lemma Fetch_release_latest:
  assumes "tag g = []" and "opts_Version opts = []"
  shows "Fetch_release gh g opts =
     (let r = GetLatestRelease gh (client g) (owner g) (repo g);
          l = [Infof (''Getting latest release for '' @ owner g @ ''/'' @ repo g)]
      in (case fst (snd r) of
            None \<Rightarrow> (Panic NilResponse, g, l)
          | Some resp \<Rightarrow>
              (Ok (fst r,
                   if StatusCode resp = StatusNotFound
                   then Some (Errorf (''repository '' @ owner g @ ''/'' @ repo g
                                      @ '' does not have releases''))
                   else snd (snd r)),
               g, l)))"
  using assms by (simp add: Fetch_release_def Let_def split_beta)

text \<open>
  C4. On the latest-release path (no tag on the provider, no version asked for), when
  the Releases API answers with status 404, \<open>Fetch\<close> returns the error
  \<open>repository owner/repo does not have releases\<close>, with the provider's owner and
  repo, whatever error the API call handed back.
\<close>

theorem Fetch_latest_not_found:
  assumes "tag g = []"
    and "opts_Version opts = []"
    and "GetLatestRelease gh (client g) (owner g) (repo g) = (release, Some resp, err)"
    and "StatusCode resp = 404"
  shows "Fetch gh NewFilter g opts =
     (Err (Errorf (''repository '' @ owner g @ ''/'' @ repo g @ '' does not have releases'')),
      g, [Infof (''Getting latest release for '' @ owner g @ ''/'' @ repo g)])"
  using assms(3,4)
  by (simp add: Fetch_def Fetch_release_latest [OF assms(1,2)] Fetch_asset_def StatusNotFound_def)

theorem Fetch_latest_not_found_witness:
  "Fetch (example_github (None, Some \<lparr>StatusCode = 404\<rparr>, Some (Upstream ''404 Not Found'')))
     example_filter (example_provider []) (example_opts [])
   = (Err (Errorf ''repository owner/repo does not have releases''), example_provider [],
      [Infof ''Getting latest release for owner/repo''])"
  using Fetch_latest_not_found [of "example_provider []" "example_opts []"
      "example_github (None, Some \<lparr>StatusCode = 404\<rparr>, Some (Upstream ''404 Not Found''))"
      None "\<lparr>StatusCode = 404\<rparr>" "Some (Upstream ''404 Not Found'')" example_filter]
  by (simp add: example_provider_def example_opts_def example_github_def)

lemma Fetch_asset_Ok:
  assumes "Fetch_asset NewFilter g opts (release, err) = (Ok file, l)"
  shows "err = None"
    and "\<exists>rel. release = Some rel \<and> File_Version file = GetTagName (Some rel)"
    and "\<exists>gf outFile.
           ProcessURL (NewFilter \<lparr>SkipScoring = All opts, PackagePath = opts_PackagePath opts,
                                   SkipPathCheck = SkipPatchCheck opts,
                                   PackageName = opts_PackageName opts\<rparr>) gf = Inr outFile
           \<and> File_Name file = OutFile_Name outFile"
proof -
  from assms show e: "err = None"
    by (cases err) (simp_all add: Fetch_asset_def)
  from assms e obtain rel where r: "release = Some rel"
    by (cases release) (simp_all add: Fetch_asset_def)
  define f where "f = NewFilter \<lparr>SkipScoring = All opts, PackagePath = opts_PackagePath opts,
                                   SkipPathCheck = SkipPatchCheck opts,
                                   PackageName = opts_PackageName opts\<rparr>"
  define cs where "cs = fst (getCandidates (Assets rel) (asset g))"
  from assms e r obtain gf0 where g0: "FilterAssets f (repo g) cs = Inr gf0"
    by (cases "FilterAssets f (repo g) cs")
      (simp_all add: Fetch_asset_def Let_def split_beta f_def cs_def)
  define gf1 where "gf1 = gf0\<lparr>ExtraHeaders := [''Accept'' \<mapsto> ''application/octet-stream'']\<rparr>"
  define gf where "gf = (if token g \<noteq> []
                         then gf1\<lparr>ExtraHeaders :=
                                (ExtraHeaders gf1)(''Authorization'' \<mapsto> ''token '' @ token g)\<rparr>
                         else gf1)"
  from assms e r g0 obtain outFile where o: "ProcessURL f gf = Inr outFile"
    by (cases "ProcessURL f gf")
      (simp_all add: Fetch_asset_def Let_def split_beta f_def [symmetric] cs_def [symmetric]
         gf1_def [symmetric] gf_def [symmetric])
  from assms e r g0 o have fl: "file = \<lparr>Data = Source outFile, File_Name = OutFile_Name outFile,
                  File_Version = GetTagName (Some rel),
                  File_PackagePath = OutFile_PackagePath outFile\<rparr>"
    by (simp add: Fetch_asset_def Let_def split_beta f_def [symmetric] cs_def [symmetric]
         gf1_def [symmetric] gf_def [symmetric])
  from r fl show "\<exists>rel. release = Some rel \<and> File_Version file = GetTagName (Some rel)"
    by simp
  from o fl show "\<exists>gf outFile.
           ProcessURL (NewFilter \<lparr>SkipScoring = All opts, PackagePath = opts_PackagePath opts,
                                   SkipPathCheck = SkipPatchCheck opts,
                                   PackageName = opts_PackageName opts\<rparr>) gf = Inr outFile
           \<and> File_Name file = OutFile_Name outFile"
    unfolding f_def by auto
qed

lemma Fetch_asset_no_NilResponse: "fst (Fetch_asset NewFilter g opts looked_up) \<noteq> Panic NilResponse"
  by (simp add: Fetch_asset_def Let_def split_beta split: option.split sum.split prod.split)

text \<open>
  C5. A non-empty \<open>FetchOpts.Version\<close> wins over the tag of the provider: it is written
  into the provider's \<open>tag\<close>, which the provider keeps after the call, and the
  release is the answer of the by-tag request for that version. With no version but a
  tag on the provider, the release is the answer of the by-tag request for that tag.
  The latest-release request is made exactly when both are empty.
\<close>

theorem Fetch_version_precedence:
  "(opts_Version opts \<noteq> [] \<longrightarrow>
      (let g' = g\<lparr>tag := opts_Version opts\<rparr>;
           r = GetReleaseByTag gh (client g) (owner g) (repo g) (opts_Version opts);
           a = Fetch_asset NewFilter g' opts (fst r, snd (snd r))
       in Fetch gh NewFilter g opts =
            (fst a, g',
             Infof (''Getting '' @ opts_Version opts @ '' release for '' @ owner g @ ''/'' @ repo g)
               # snd a))
      \<and> tag (fst (snd (Fetch gh NewFilter g opts))) = opts_Version opts)
   \<and> (opts_Version opts = [] \<and> tag g \<noteq> [] \<longrightarrow>
        (let r = GetReleaseByTag gh (client g) (owner g) (repo g) (tag g);
             a = Fetch_asset NewFilter g opts (fst r, snd (snd r))
         in Fetch gh NewFilter g opts =
              (fst a, g,
               Infof (''Getting '' @ tag g @ '' release for '' @ owner g @ ''/'' @ repo g) # snd a)))
   \<and> (opts_Version opts = [] \<and> tag g = [] \<longrightarrow>
        (let r = GetLatestRelease gh (client g) (owner g) (repo g);
             l = Infof (''Getting latest release for '' @ owner g @ ''/'' @ repo g)
         in (case fst (snd r) of
               None \<Rightarrow> Fetch gh NewFilter g opts = (Panic NilResponse, g, [l])
             | Some resp \<Rightarrow>
                 (let a = Fetch_asset NewFilter g opts
                            (fst r,
                             if StatusCode resp = 404
                             then Some (Errorf (''repository '' @ owner g @ ''/'' @ repo g
                                                @ '' does not have releases''))
                             else snd (snd r))
                  in Fetch gh NewFilter g opts = (fst a, g, l # snd a)))))"
proof (intro conjI impI)
  assume v: "opts_Version opts \<noteq> []"
  then have t: "tag g \<noteq> [] \<or> opts_Version opts \<noteq> []" by simp
  show e: "let g' = g\<lparr>tag := opts_Version opts\<rparr>;
           r = GetReleaseByTag gh (client g) (owner g) (repo g) (opts_Version opts);
           a = Fetch_asset NewFilter g' opts (fst r, snd (snd r))
       in Fetch gh NewFilter g opts =
            (fst a, g',
             Infof (''Getting '' @ opts_Version opts @ '' release for '' @ owner g @ ''/'' @ repo g)
               # snd a)"
    using v by (simp add: Fetch_def Fetch_release_by_tag [OF t] Let_def split_beta)
  then show "tag (fst (snd (Fetch gh NewFilter g opts))) = opts_Version opts"
    by (simp add: Let_def)
next
  assume v: "opts_Version opts = [] \<and> tag g \<noteq> []"
  then have t: "tag g \<noteq> [] \<or> opts_Version opts \<noteq> []" by simp
  show "let r = GetReleaseByTag gh (client g) (owner g) (repo g) (tag g);
             a = Fetch_asset NewFilter g opts (fst r, snd (snd r))
         in Fetch gh NewFilter g opts =
              (fst a, g,
               Infof (''Getting '' @ tag g @ '' release for '' @ owner g @ ''/'' @ repo g) # snd a)"
    using v by (simp add: Fetch_def Fetch_release_by_tag [OF t] Let_def split_beta)
next
  assume v: "opts_Version opts = [] \<and> tag g = []"
  then have t: "tag g = []" "opts_Version opts = []" by simp_all
  show "let r = GetLatestRelease gh (client g) (owner g) (repo g);
             l = Infof (''Getting latest release for '' @ owner g @ ''/'' @ repo g)
         in (case fst (snd r) of
               None \<Rightarrow> Fetch gh NewFilter g opts = (Panic NilResponse, g, [l])
             | Some resp \<Rightarrow>
                 (let a = Fetch_asset NewFilter g opts
                            (fst r,
                             if StatusCode resp = 404
                             then Some (Errorf (''repository '' @ owner g @ ''/'' @ repo g
                                                @ '' does not have releases''))
                             else snd (snd r))
                  in Fetch gh NewFilter g opts = (fst a, g, l # snd a)))"
    by (cases "fst (snd (GetLatestRelease gh (client g) (owner g) (repo g)))")
      (simp_all add: Fetch_def Fetch_release_latest [OF t] Let_def split_beta StatusNotFound_def)
qed

lemma example_Fetch_asset:
  "Fetch_asset example_filter (example_provider t) (example_opts v) (Some example_release, None)
   = (Ok \<lparr>Data = ''bytes'', File_Name = ''tool-linux-amd64'', File_Version = ''v1.2.3'',
          File_PackagePath = []\<rparr>, [])"
  by (simp add: Fetch_asset_def example_filter_def example_provider_def example_opts_def
      example_release_def getCandidates_def GetName_def GetURL_def GetTagName_def)

lemma example_Fetch_asset_error:
  "Fetch_asset example_filter (example_provider t) (example_opts v) (None, Some e) = (Err e, [])"
  by (simp add: Fetch_asset_def)

theorem Fetch_version_precedence_witness:
  "Fetch (example_github (None, None, None)) example_filter (example_provider ''v0.9'')
     (example_opts ''v1.2.3'')
   = (Ok \<lparr>Data = ''bytes'', File_Name = ''tool-linux-amd64'', File_Version = ''v1.2.3'',
          File_PackagePath = []\<rparr>,
      example_provider ''v1.2.3'', [Infof ''Getting v1.2.3 release for owner/repo''])
   \<and> Fetch (example_github (None, None, None)) example_filter (example_provider ''v1.2.3'')
     (example_opts [])
   = (Ok \<lparr>Data = ''bytes'', File_Name = ''tool-linux-amd64'', File_Version = ''v1.2.3'',
          File_PackagePath = []\<rparr>,
      example_provider ''v1.2.3'', [Infof ''Getting v1.2.3 release for owner/repo''])
   \<and> Fetch (example_github (Some example_release, Some \<lparr>StatusCode = 200\<rparr>, None)) example_filter
       (example_provider []) (example_opts [])
   = (Ok \<lparr>Data = ''bytes'', File_Name = ''tool-linux-amd64'', File_Version = ''v1.2.3'',
          File_PackagePath = []\<rparr>,
      example_provider [], [Infof ''Getting latest release for owner/repo''])"
proof (intro conjI)
  have p: "example_provider t\<lparr>tag := v\<rparr> = example_provider v" for t v
    by (simp add: example_provider_def)
  have f: "owner (example_provider t) = ''owner''" "repo (example_provider t) = ''repo''"
    "tag (example_provider t) = t" "opts_Version (example_opts v) = v" for t v
    by (simp_all add: example_provider_def example_opts_def)
  show "Fetch (example_github (None, None, None)) example_filter (example_provider ''v0.9'')
     (example_opts ''v1.2.3'')
   = (Ok \<lparr>Data = ''bytes'', File_Name = ''tool-linux-amd64'', File_Version = ''v1.2.3'',
          File_PackagePath = []\<rparr>,
      example_provider ''v1.2.3'', [Infof ''Getting v1.2.3 release for owner/repo''])"
    using Fetch_version_precedence [of "example_opts ''v1.2.3''" "example_provider ''v0.9''"
        "example_github (None, None, None)" example_filter]
    by (simp add: f p Let_def example_github_def example_Fetch_asset)
  show "Fetch (example_github (None, None, None)) example_filter (example_provider ''v1.2.3'')
     (example_opts [])
   = (Ok \<lparr>Data = ''bytes'', File_Name = ''tool-linux-amd64'', File_Version = ''v1.2.3'',
          File_PackagePath = []\<rparr>,
      example_provider ''v1.2.3'', [Infof ''Getting v1.2.3 release for owner/repo''])"
    using Fetch_version_precedence [of "example_opts []" "example_provider ''v1.2.3''"
        "example_github (None, None, None)" example_filter]
    by (simp add: f p Let_def example_github_def example_Fetch_asset)
  show "Fetch (example_github (Some example_release, Some \<lparr>StatusCode = 200\<rparr>, None)) example_filter
       (example_provider []) (example_opts [])
   = (Ok \<lparr>Data = ''bytes'', File_Name = ''tool-linux-amd64'', File_Version = ''v1.2.3'',
          File_PackagePath = []\<rparr>,
      example_provider [], [Infof ''Getting latest release for owner/repo''])"
    using Fetch_version_precedence [of "example_opts []" "example_provider []"
        "example_github (Some example_release, Some \<lparr>StatusCode = 200\<rparr>, None)" example_filter]
    by (simp add: f p Let_def example_github_def example_Fetch_asset)
qed

lemma Fetch_Ok:
  assumes "Fetch gh NewFilter g opts = (Ok file, g', l)"
  shows "\<exists>release err l0 l1. Fetch_release gh g opts = (Ok (release, err), g', l0)
           \<and> Fetch_asset NewFilter g' opts (release, err) = (Ok file, l1)"
proof (cases "Fetch_release gh g opts")
  case (fields r g0 l0)
  show ?thesis
  proof (cases r)
    case (Panic p)
    with fields assms show ?thesis by (simp add: Fetch_def)
  next
    case (Err e)
    with fields assms show ?thesis by (simp add: Fetch_def)
  next
    case (Ok looked_up)
    with fields assms show ?thesis
      by (cases looked_up; cases "Fetch_asset NewFilter g0 opts looked_up")
        (auto simp: Fetch_def)
  qed
qed

text \<open>
  C7. A file that \<open>Fetch\<close> returns has as \<open>Version\<close> the tag name of the release
  that the request made (by tag, or the latest) answered with; its \<open>Name\<close> is the
  name of the file the download collaborator delivered.
\<close>

theorem Fetch_version_is_tag_name:
  assumes "Fetch gh NewFilter g opts = (Ok file, g', l)"
  shows "\<exists>rel. fst (if tag g \<noteq> [] \<or> opts_Version opts \<noteq> []
                    then GetReleaseByTag gh (client g) (owner g) (repo g) (tag g')
                    else GetLatestRelease gh (client g) (owner g) (repo g)) = Some rel
           \<and> File_Version file = (case TagName rel of None \<Rightarrow> [] | Some t \<Rightarrow> t)
           \<and> (\<exists>gf outFile.
                 ProcessURL (NewFilter \<lparr>SkipScoring = All opts, PackagePath = opts_PackagePath opts,
                                         SkipPathCheck = SkipPatchCheck opts,
                                         PackageName = opts_PackageName opts\<rparr>) gf = Inr outFile
                 \<and> File_Name file = OutFile_Name outFile)"
proof -
  from Fetch_Ok [OF assms] obtain release err l0 l1
    where r: "Fetch_release gh g opts = (Ok (release, err), g', l0)"
      and a: "Fetch_asset NewFilter g' opts (release, err) = (Ok file, l1)" by blast
  from Fetch_asset_Ok(2) [OF a] obtain rel
    where rel: "release = Some rel" "File_Version file = GetTagName (Some rel)" by blast
  have "fst (if tag g \<noteq> [] \<or> opts_Version opts \<noteq> []
             then GetReleaseByTag gh (client g) (owner g) (repo g) (tag g')
             else GetLatestRelease gh (client g) (owner g) (repo g)) = release"
  proof (cases "tag g \<noteq> [] \<or> opts_Version opts \<noteq> []")
    case True
    from r show ?thesis
      unfolding Fetch_release_by_tag [OF True] using True
      by (auto simp: Let_def split: if_split_asm)
  next
    case False
    then have t: "tag g = []" "opts_Version opts = []" by simp_all
    from r show ?thesis
      unfolding Fetch_release_latest [OF t] using t
      by (auto simp: Let_def split: option.split_asm)
  qed
  with rel Fetch_asset_Ok(3) [OF a] show ?thesis
    by (simp add: GetTagName_def)
qed

theorem Fetch_version_is_tag_name_witness:
  "Fetch (example_github (Some example_release, Some \<lparr>StatusCode = 200\<rparr>, None)) example_filter
       (example_provider []) (example_opts [])
   = (Ok \<lparr>Data = ''bytes'', File_Name = ''tool-linux-amd64'', File_Version = ''v1.2.3'',
          File_PackagePath = []\<rparr>,
      example_provider [], [Infof ''Getting latest release for owner/repo''])
   \<and> TagName example_release = Some ''v1.2.3''
   \<and> (\<exists>rel. Some example_release = Some rel
          \<and> File_Version \<lparr>Data = ''bytes'', File_Name = ''tool-linux-amd64'',
                            File_Version = ''v1.2.3'', File_PackagePath = []\<rparr>
              = (case TagName rel of None \<Rightarrow> [] | Some t \<Rightarrow> t))"
proof -
  have e: "Fetch (example_github (Some example_release, Some \<lparr>StatusCode = 200\<rparr>, None)) example_filter
       (example_provider []) (example_opts [])
   = (Ok \<lparr>Data = ''bytes'', File_Name = ''tool-linux-amd64'', File_Version = ''v1.2.3'',
          File_PackagePath = []\<rparr>,
      example_provider [], [Infof ''Getting latest release for owner/repo''])"
    by (simp add: Fetch_def Fetch_release_def example_Fetch_asset example_github_def
        StatusNotFound_def example_provider_def [of "[]"] example_opts_def [of "[]"])
      (simp add: example_provider_def [symmetric] example_opts_def [symmetric] example_Fetch_asset)
  from Fetch_version_is_tag_name [OF e] e show ?thesis
    by (simp add: example_github_def example_provider_def example_opts_def example_release_def)
qed

text \<open>
  C10. On the latest-release path \<open>Fetch\<close> reads the status code of the response before
  it looks at the error. When the latest-release request answers with no response
  (nil), whatever release and error come with it, \<open>Fetch\<close> panics on the nil
  response and returns none of them; with a response it does not panic there.
\<close>

theorem Fetch_latest_nil_response:
  assumes "tag g = []"
    and "opts_Version opts = []"
    and "GetLatestRelease gh (client g) (owner g) (repo g) = (release, resp, err)"
  shows "(resp = None \<longrightarrow>
            Fetch gh NewFilter g opts =
              (Panic NilResponse, g, [Infof (''Getting latest release for '' @ owner g @ ''/'' @ repo g)]))
         \<and> (resp \<noteq> None \<longrightarrow> fst (Fetch gh NewFilter g opts) \<noteq> Panic NilResponse)"
proof (intro conjI impI)
  assume "resp = None"
  with assms(3) show "Fetch gh NewFilter g opts =
      (Panic NilResponse, g, [Infof (''Getting latest release for '' @ owner g @ ''/'' @ repo g)])"
    by (simp add: Fetch_def Fetch_release_latest [OF assms(1,2)])
next
  assume "resp \<noteq> None"
  then obtain r where "resp = Some r" by blast
  with assms(3) show "fst (Fetch gh NewFilter g opts) \<noteq> Panic NilResponse"
    using Fetch_asset_no_NilResponse [of NewFilter g opts]
    by (simp add: Fetch_def Fetch_release_latest [OF assms(1,2)] split_beta)
qed

theorem Fetch_latest_nil_response_witness:
  "Fetch (example_github (None, None, Some (Upstream ''dial tcp: connection refused'')))
      example_filter (example_provider []) (example_opts [])
   = (Panic NilResponse, example_provider [], [Infof ''Getting latest release for owner/repo''])
   \<and> fst (Fetch (example_github (None, Some \<lparr>StatusCode = 500\<rparr>, Some (Upstream ''500 Internal Server Error'')))
      example_filter (example_provider []) (example_opts [])) \<noteq> Panic NilResponse"
  using Fetch_latest_nil_response [of "example_provider []" "example_opts []"
      "example_github (None, None, Some (Upstream ''dial tcp: connection refused''))"
      None None "Some (Upstream ''dial tcp: connection refused'')" example_filter]
    Fetch_latest_nil_response [of "example_provider []" "example_opts []"
      "example_github (None, Some \<lparr>StatusCode = 500\<rparr>, Some (Upstream ''500 Internal Server Error''))"
      None "Some \<lparr>StatusCode = 500\<rparr>" "Some (Upstream ''500 Internal Server Error'')" example_filter]
  by (simp add: example_provider_def example_opts_def example_github_def)

subsection \<open>Package strings\<close>

paragraph \<open>White space\<close>

lemma space_runes_nonempty: "[] \<notin> set space_runes"
  by (simp add: space_runes_def)

lemma all_space_append: "all_space a \<Longrightarrow> all_space b \<Longrightarrow> all_space (a @ b)"
  by (induction rule: all_space.induct) (auto intro: all_space.intros)

lemma all_space_single: "t \<in> set space_runes \<Longrightarrow> all_space t"
  using all_space_rune [OF _ all_space_Nil] by simp

lemma leading_space_0_iff: "leading_space s = 0 \<longleftrightarrow> (\<forall>t \<in> set space_runes. \<not> prefix t s)"
proof
  assume z: "leading_space s = 0"
  show "\<forall>t \<in> set space_runes. \<not> prefix t s"
  proof (cases "find (\<lambda>t. prefix t s) space_runes")
    case None
    then show ?thesis by (auto simp: find_None_iff)
  next
    case (Some t)
    then have "t \<in> set space_runes" by (auto simp: find_Some_iff)
    with z Some space_runes_nonempty show ?thesis by (auto simp: leading_space_def)
  qed
next
  assume "\<forall>t \<in> set space_runes. \<not> prefix t s"
  then have "find (\<lambda>t. prefix t s) space_runes = None" by (auto simp: find_None_iff)
  then show "leading_space s = 0" by (simp add: leading_space_def)
qed

lemma trailing_space_0_iff: "trailing_space s = 0 \<longleftrightarrow> (\<forall>t \<in> set space_runes. \<not> suffix t s)"
proof
  assume z: "trailing_space s = 0"
  show "\<forall>t \<in> set space_runes. \<not> suffix t s"
  proof (cases "find (\<lambda>t. suffix t s) space_runes")
    case None
    then show ?thesis by (auto simp: find_None_iff)
  next
    case (Some t)
    then have "t \<in> set space_runes" by (auto simp: find_Some_iff)
    with z Some space_runes_nonempty show ?thesis by (auto simp: trailing_space_def)
  qed
next
  assume "\<forall>t \<in> set space_runes. \<not> suffix t s"
  then have "find (\<lambda>t. suffix t s) space_runes = None" by (auto simp: find_None_iff)
  then show "trailing_space s = 0" by (simp add: trailing_space_def)
qed

lemma leading_space_rune:
  assumes "leading_space s \<noteq> 0"
  shows "\<exists>t \<in> set space_runes. s = t @ drop (leading_space s) s"
proof -
  from assms obtain t where f: "find (\<lambda>t. prefix t s) space_runes = Some t"
    by (cases "find (\<lambda>t. prefix t s) space_runes") (auto simp: leading_space_def)
  then have "t \<in> set space_runes" "prefix t s" by (auto simp: find_Some_iff)
  moreover from f have "leading_space s = length t" by (simp add: leading_space_def)
  ultimately show ?thesis by (auto elim!: prefixE)
qed

lemma trailing_space_rune:
  assumes "trailing_space s \<noteq> 0"
  shows "\<exists>t \<in> set space_runes. s = take (length s - trailing_space s) s @ t"
proof -
  from assms obtain t where f: "find (\<lambda>t. suffix t s) space_runes = Some t"
    by (cases "find (\<lambda>t. suffix t s) space_runes") (auto simp: trailing_space_def)
  then have "t \<in> set space_runes" "suffix t s" by (auto simp: find_Some_iff)
  moreover from f have "trailing_space s = length t" by (simp add: trailing_space_def)
  ultimately show ?thesis by (auto elim!: suffixE)
qed

lemma TrimLeft_decomp: "\<exists>pre. s = pre @ TrimLeft s \<and> all_space pre"
proof (induction s rule: TrimLeft.induct)
  case (1 s)
  show ?case
  proof (cases "leading_space s = 0")
    case True
    then have "TrimLeft s = s" by (simp add: TrimLeft.simps)
    then show ?thesis using all_space_Nil by auto
  next
    case False
    from leading_space_rune [OF False] obtain t
      where t: "t \<in> set space_runes" "s = t @ drop (leading_space s) s" by blast
    from 1 [OF False] obtain pre
      where p: "drop (leading_space s) s = pre @ TrimLeft (drop (leading_space s) s)" "all_space pre"
      by blast
    from False have e: "TrimLeft s = TrimLeft (drop (leading_space s) s)"
      by (subst TrimLeft.simps) simp
    have "s = (t @ pre) @ TrimLeft s"
      using t(2) p(1) e by (metis append.assoc)
    moreover have "all_space (t @ pre)" using t(1) p(2) by (rule all_space_rune)
    ultimately show ?thesis by blast
  qed
qed

lemma TrimRight_decomp: "\<exists>suf. s = TrimRight s @ suf \<and> all_space suf"
proof (induction s rule: TrimRight.induct)
  case (1 s)
  show ?case
  proof (cases "trailing_space s = 0")
    case True
    then have "TrimRight s = s" by (simp add: TrimRight.simps)
    then show ?thesis using all_space_Nil by auto
  next
    case False
    let ?r = "take (length s - trailing_space s) s"
    from trailing_space_rune [OF False] obtain t
      where t: "t \<in> set space_runes" "s = ?r @ t" by blast
    from 1 [OF False] obtain suf
      where p: "?r = TrimRight ?r @ suf" "all_space suf"
      by blast
    from False have e: "TrimRight s = TrimRight ?r"
      by (subst TrimRight.simps) simp
    have "s = TrimRight s @ (suf @ t)"
      using t(2) p(1) e by (metis append.assoc)
    moreover have "all_space (suf @ t)"
      using p(2) all_space_single [OF t(1)] by (rule all_space_append)
    ultimately show ?thesis by blast
  qed
qed

lemma TrimLeft_no_leading: "leading_space (TrimLeft s) = 0"
proof (induction s rule: TrimLeft.induct)
  case (1 s)
  show ?case
  proof (cases "leading_space s = 0")
    case True
    then show ?thesis by (simp add: TrimLeft.simps)
  next
    case False
    with 1 [OF False] show ?thesis by (subst TrimLeft.simps) simp
  qed
qed

lemma TrimRight_no_trailing: "trailing_space (TrimRight s) = 0"
proof (induction s rule: TrimRight.induct)
  case (1 s)
  show ?case
  proof (cases "trailing_space s = 0")
    case True
    then show ?thesis by (simp add: TrimRight.simps)
  next
    case False
    with 1 [OF False] show ?thesis by (subst TrimRight.simps) simp
  qed
qed

lemma TrimSpace_decomp:
  "\<exists>pre suf. s = pre @ TrimSpace s @ suf \<and> all_space pre \<and> all_space suf"
proof -
  from TrimLeft_decomp [of s] obtain pre where p: "s = pre @ TrimLeft s" "all_space pre" by blast
  from TrimRight_decomp [of "TrimLeft s"] obtain suf
    where q: "TrimLeft s = TrimRight (TrimLeft s) @ suf" "all_space suf" by blast
  have "s = pre @ TrimSpace s @ suf"
    unfolding TrimSpace_def using p(1) q(1) by metis
  with p(2) q(2) show ?thesis by blast
qed

lemma TrimSpace_trimmed:
  "\<forall>t \<in> set space_runes. \<not> prefix t (TrimSpace s) \<and> \<not> suffix t (TrimSpace s)"
proof
  fix t assume t: "t \<in> set space_runes"
  from TrimRight_decomp [of "TrimLeft s"] have "prefix (TrimSpace s) (TrimLeft s)"
    unfolding TrimSpace_def by (metis prefixI)
  moreover have "\<not> prefix t (TrimLeft s)"
    using TrimLeft_no_leading [of s] t by (simp add: leading_space_0_iff)
  ultimately have "\<not> prefix t (TrimSpace s)"
    using prefix_order.trans by blast
  moreover have "\<not> suffix t (TrimSpace s)"
    using TrimRight_no_trailing [of "TrimLeft s"] t
    by (simp add: trailing_space_0_iff TrimSpace_def)
  ultimately show "\<not> prefix t (TrimSpace s) \<and> \<not> suffix t (TrimSpace s)" by simp
qed

lemma space_runes_width: "\<forall>t \<in> set space_runes. length t = rune_width (hd t)"
  by (simp add: space_runes_def rune_width_def)

lemma space_runes_prefix_free:
  assumes "a \<in> set space_runes" and "b \<in> set space_runes" and "prefix a b"
  shows "a = b"
proof -
  from assms(1,2) space_runes_nonempty have ne: "a \<noteq> []" "b \<noteq> []" by auto
  with assms(3) have "hd a = hd b" by (cases a; cases b) auto
  with assms(1,2) space_runes_width have "length a = length b" by simp
  with assms(3) show ?thesis by (auto elim!: prefixE)
qed

lemma leading_space_rune_append:
  assumes "t \<in> set space_runes"
  shows "leading_space (t @ s) = length t"
proof -
  have "prefix t (t @ s)" by simp
  with assms obtain t' where f: "find (\<lambda>x. prefix x (t @ s)) space_runes = Some t'"
    by (cases "find (\<lambda>x. prefix x (t @ s)) space_runes") (auto simp: find_None_iff)
  then have t': "t' \<in> set space_runes" "prefix t' (t @ s)" by (auto simp: find_Some_iff)
  have "prefix t t' \<or> prefix t' t"
    using t'(2) prefix_same_cases [of t "t @ s" t'] by auto
  with assms t'(1) have "t' = t" using space_runes_prefix_free by blast
  with f show ?thesis by (simp add: leading_space_def)
qed

lemma TrimLeft_all_space: "all_space s \<Longrightarrow> TrimLeft s = []"
proof (induction rule: all_space.induct)
  case all_space_Nil
  have "leading_space [] = 0" using space_runes_nonempty by (auto simp: leading_space_0_iff)
  then show ?case by (simp add: TrimLeft.simps)
next
  case (all_space_rune t s)
  from all_space_rune(1) space_runes_nonempty have "t \<noteq> []" by auto
  then show ?case
    using all_space_rune(3) leading_space_rune_append [OF all_space_rune(1), of s]
    by (subst TrimLeft.simps) simp
qed

lemma TrimRight_Nil: "TrimRight [] = []"
proof -
  have "trailing_space [] = 0" using space_runes_nonempty by (auto simp: trailing_space_0_iff)
  then show ?thesis by (simp add: TrimRight.simps)
qed

lemma TrimSpace_empty_iff: "TrimSpace s = [] \<longleftrightarrow> all_space s"
proof
  assume e: "TrimSpace s = []"
  from TrimSpace_decomp [of s] obtain pre suf
    where "s = pre @ TrimSpace s @ suf" "all_space pre" "all_space suf" by blast
  with e show "all_space s" using all_space_append [of pre suf] by simp
next
  assume "all_space s"
  then show "TrimSpace s = []" by (simp add: TrimSpace_def TrimLeft_all_space TrimRight_Nil)
qed

paragraph \<open>Replacement\<close>

lemma ReplaceAll_skip:
  "\<not> prefix (k # ks) (c # cs) \<Longrightarrow>
   ReplaceAll (c # cs) (k # ks) new = c # ReplaceAll cs (k # ks) new"
  by (simp only: ReplaceAll.simps if_False)

lemma ReplaceAll_match:
  "ReplaceAll ((k # ks) @ rest) (k # ks) new = new @ ReplaceAll rest (k # ks) new"
proof -
  have p: "prefix (k # ks) (k # (ks @ rest))" by simp
  have d: "drop (length (k # ks)) (k # (ks @ rest)) = rest" by simp
  have "ReplaceAll (k # (ks @ rest)) (k # ks) new = new @ ReplaceAll rest (k # ks) new"
    by (simp only: ReplaceAll.simps(2) p if_True d)
  then show ?thesis by simp
qed

lemma ReplaceAll_absent:
  "\<not> sublist (k # ks) s \<Longrightarrow> ReplaceAll s (k # ks) new = s"
proof (induction s)
  case Nil
  show ?case by (simp only: ReplaceAll.simps)
next
  case (Cons c cs)
  from Cons.prems have n: "\<not> prefix (k # ks) (c # cs)" "\<not> sublist (k # ks) cs"
    unfolding sublist_Cons_right by blast+
  show ?case
    by (simp only: ReplaceAll_skip [OF n(1)] Cons.IH [OF n(2)])
qed

lemma prefix_skips_absent:
  assumes "prefix ks (cs @ k # r)" and "k \<notin> set ks"
  shows "prefix ks cs"
proof -
  from assms(1) consider "prefix ks cs" | us where "ks = cs @ us" "prefix us (k # r)"
    unfolding prefix_append by blast
  then show ?thesis
  proof cases
    case 1
    then show ?thesis .
  next
    case 2
    show ?thesis
    proof (cases us)
      case Nil
      with 2(1) show ?thesis by simp
    next
      case (Cons u us')
      with 2(2) have "u = k" by (simp only: Cons_prefix_Cons)
      with Cons 2(1) have "k \<in> set ks" by simp
      with assms(2) show ?thesis by blast
    qed
  qed
qed

lemma ReplaceAll_first:
  assumes "k \<notin> set ks" and "\<not> sublist (k # ks) p"
  shows "ReplaceAll (p @ (k # ks) @ rest) (k # ks) new = p @ new @ ReplaceAll rest (k # ks) new"
  using assms(2)
proof (induction p)
  case Nil
  show ?case by (simp only: append_Nil ReplaceAll_match)
next
  case (Cons c cs)
  from Cons.prems have n: "\<not> prefix (k # ks) (c # cs)" "\<not> sublist (k # ks) cs"
    unfolding sublist_Cons_right by blast+
  have m: "\<not> prefix (k # ks) (c # (cs @ (k # ks) @ rest))"
  proof
    assume a: "prefix (k # ks) (c # (cs @ (k # ks) @ rest))"
    note a' = a [unfolded append_Cons Cons_prefix_Cons]
    from a' have ck: "k = c" by (rule conjunct1)
    from a' have "prefix ks (cs @ k # (ks @ rest))" by (rule conjunct2)
    then have "prefix ks cs" using assms(1) by (rule prefix_skips_absent)
    with ck have "prefix (k # ks) (c # cs)" by (simp only: Cons_prefix_Cons simp_thms)
    with n(1) show False by blast
  qed
  have "ReplaceAll (c # (cs @ (k # ks) @ rest)) (k # ks) new
        = c # ReplaceAll (cs @ (k # ks) @ rest) (k # ks) new"
    by (rule ReplaceAll_skip [OF m])
  with Cons.IH [OF n(2)] show ?case by (simp only: append_Cons)
qed

lemma ReplaceAll_Join:
  assumes "k \<notin> set ks"
  shows "\<forall>p \<in> set ps. \<not> sublist (k # ks) p \<Longrightarrow>
         ReplaceAll (Join ps (k # ks)) (k # ks) new = Join ps new"
proof (induction ps)
  case Nil
  show ?case by (simp only: Join.simps ReplaceAll.simps)
next
  case (Cons p ps)
  show ?case
  proof (cases ps)
    case Nil
    with Cons.prems show ?thesis by (simp add: ReplaceAll_absent del: ReplaceAll.simps)
  next
    case (Cons q qs)
    from Cons.prems have a: "\<not> sublist (k # ks) p" "\<forall>p \<in> set ps. \<not> sublist (k # ks) p"
      by simp_all
    have "ReplaceAll (p @ (k # ks) @ Join ps (k # ks)) (k # ks) new
          = p @ new @ ReplaceAll (Join ps (k # ks)) (k # ks) new"
      by (rule ReplaceAll_first [OF assms a(1)])
    with Cons.IH [OF a(2)] Cons show ?thesis by (simp del: ReplaceAll.simps)
  qed
qed

subsection \<open>The generic provider\<close>

lemma generic_GetLatestVersion_read:
  assumes "Get (URL_String (generic_versionURL g)) = Inr (Inr content)"
  shows "fst (generic_GetLatestVersion parse Get g) =
     (case url_Parse parse (ReplaceAll (generic_url g) ''{version}'' (TrimSpace content)) of
        Inl err \<Rightarrow> Inl err
      | Inr versionURL \<Rightarrow> Inr (TrimSpace content, URL_String versionURL))"
  using assms by (simp add: generic_GetLatestVersion_def Let_def)

lemma generic_GetLatestVersion_Inr:
  assumes "fst (generic_GetLatestVersion parse Get g) = Inr (version, u)"
  shows "\<exists>content. Get (URL_String (generic_versionURL g)) = Inr (Inr content)
           \<and> version = TrimSpace content"
proof (cases "Get (URL_String (generic_versionURL g))")
  case (Inl e)
  with assms show ?thesis by (simp add: generic_GetLatestVersion_def)
next
  case (Inr resp_Body)
  show ?thesis
  proof (cases resp_Body)
    case (Inl e)
    with Inr assms show ?thesis by (simp add: generic_GetLatestVersion_def)
  next
    case (Inr content)
    with \<open>Get (URL_String (generic_versionURL g)) = Inr resp_Body\<close>
    have r: "Get (URL_String (generic_versionURL g)) = Inr (Inr content)" by simp
    from assms show ?thesis
      unfolding generic_GetLatestVersion_read [where Get = Get and g = g, OF r] using r
      by (cases "url_Parse parse (ReplaceAll (generic_url g) ''{version}'' (TrimSpace content))")
        simp_all
  qed
qed

lemma placeholder_first: "CHR ''{'' \<notin> set ''version}''"
  by simp

text \<open>
  C2, as the code has it. When the request succeeds and the body is read, the version
  is the body without its leading and trailing white space: the body is white space
  runes, the version, white space runes, and the version neither starts nor ends with
  a white space rune. The template with the version put in place of \<open>{version}\<close> is
  the template itself when it has no \<open>{version}\<close>, and the pieces between the
  placeholders joined by the version otherwise. That text goes through \<open>url.Parse\<close>:
  when it parses, the result is the version and the \<open>String()\<close> form of the parsed
  URL; when it does not, the result is the parse error. It does not parse when it has
  an ASCII control byte before its first \<open>#\<close>.
\<close>

theorem generic_GetLatestVersion_resolution:
  assumes "Get (URL_String (generic_versionURL g)) = Inr (Inr content)"
  shows "(case url_Parse parse (ReplaceAll (generic_url g) ''{version}'' (TrimSpace content)) of
            Inl err \<Rightarrow> fst (generic_GetLatestVersion parse Get g) = Inl err
          | Inr versionURL \<Rightarrow>
              fst (generic_GetLatestVersion parse Get g)
                = Inr (TrimSpace content, URL_String versionURL))
         \<and> (\<exists>pre suf. content = pre @ TrimSpace content @ suf \<and> all_space pre \<and> all_space suf)
         \<and> (\<forall>t \<in> set space_runes.
                \<not> prefix t (TrimSpace content) \<and> \<not> suffix t (TrimSpace content))
         \<and> (\<not> sublist ''{version}'' (generic_url g) \<longrightarrow>
                ReplaceAll (generic_url g) ''{version}'' (TrimSpace content) = generic_url g)
         \<and> (\<forall>ps. generic_url g = Join ps ''{version}''
                   \<and> (\<forall>p \<in> set ps. \<not> sublist ''{version}'' p) \<longrightarrow>
                ReplaceAll (generic_url g) ''{version}'' (TrimSpace content)
                  = Join ps (TrimSpace content))
         \<and> (stringContainsCTLByte
                (takeWhile (\<lambda>c. c \<noteq> CHR ''#'')
                   (ReplaceAll (generic_url g) ''{version}'' (TrimSpace content))) \<longrightarrow>
              fst (generic_GetLatestVersion parse Get g)
                = Inl (UrlError ''parse''
                        (takeWhile (\<lambda>c. c \<noteq> CHR ''#'')
                           (ReplaceAll (generic_url g) ''{version}'' (TrimSpace content)))
                        ''net/url: invalid control character in URL''))"
proof (intro conjI allI impI)
  show "case url_Parse parse (ReplaceAll (generic_url g) ''{version}'' (TrimSpace content)) of
            Inl err \<Rightarrow> fst (generic_GetLatestVersion parse Get g) = Inl err
          | Inr versionURL \<Rightarrow>
              fst (generic_GetLatestVersion parse Get g)
                = Inr (TrimSpace content, URL_String versionURL)"
    unfolding generic_GetLatestVersion_read [where Get = Get and g = g, OF assms]
    by (cases "url_Parse parse (ReplaceAll (generic_url g) ''{version}'' (TrimSpace content))")
      simp_all
  show "\<exists>pre suf. content = pre @ TrimSpace content @ suf \<and> all_space pre \<and> all_space suf"
    by (rule TrimSpace_decomp)
  show "\<forall>t \<in> set space_runes.
          \<not> prefix t (TrimSpace content) \<and> \<not> suffix t (TrimSpace content)"
    by (rule TrimSpace_trimmed)
  show "ReplaceAll (generic_url g) ''{version}'' (TrimSpace content) = generic_url g"
    if "\<not> sublist ''{version}'' (generic_url g)"
    using that by (rule ReplaceAll_absent)
  show "ReplaceAll (generic_url g) ''{version}'' (TrimSpace content) = Join ps (TrimSpace content)"
    if "generic_url g = Join ps ''{version}'' \<and> (\<forall>p \<in> set ps. \<not> sublist ''{version}'' p)"
    for ps
    using that ReplaceAll_Join [OF placeholder_first, of ps "TrimSpace content"] by simp
  show "fst (generic_GetLatestVersion parse Get g)
          = Inl (UrlError ''parse''
                  (takeWhile (\<lambda>c. c \<noteq> CHR ''#'')
                     (ReplaceAll (generic_url g) ''{version}'' (TrimSpace content)))
                  ''net/url: invalid control character in URL'')"
    if "stringContainsCTLByte
          (takeWhile (\<lambda>c. c \<noteq> CHR ''#'')
             (ReplaceAll (generic_url g) ''{version}'' (TrimSpace content)))"
    unfolding generic_GetLatestVersion_read [where Get = Get and g = g, OF assms]
    using that by (simp add: url_Parse_def)
qed

lemma example_generic_fields:
  "URL_String (generic_versionURL example_generic) = ''https://example.com/latest''"
  "generic_url example_generic = ''https://example.com/dl/{version}/tool-{version}.tar.gz''"
  by (simp_all add: example_generic_def)

lemma example_TrimSpace:
  "TrimSpace '' v1.2.3\<newline>'' = ''v1.2.3''"
  "TrimSpace ''v1.2.3\<newline>v1.2.2\<newline>'' = ''v1.2.3\<newline>v1.2.2''"
  "TrimSpace ''\<newline>'' = []"
  "TrimSpace ''v1.2.3 beta\<newline>'' = ''v1.2.3 beta''"
  by code_simp+

theorem generic_GetLatestVersion_resolution_witness:
  "example_Get '' v1.2.3\<newline>'' (URL_String (generic_versionURL example_generic))
     = Inr (Inr '' v1.2.3\<newline>'')
   \<and> fst (generic_GetLatestVersion example_parse (example_Get '' v1.2.3\<newline>'') example_generic)
     = Inr (''v1.2.3'', ''https://example.com/dl/v1.2.3/tool-v1.2.3.tar.gz'')
   \<and> Join [''https://example.com/dl/'', ''/tool-'', ''.tar.gz''] ''v1.2.3''
     = ''https://example.com/dl/v1.2.3/tool-v1.2.3.tar.gz''
   \<and> example_Get ''v1.2.3\<newline>v1.2.2\<newline>'' (URL_String (generic_versionURL example_generic))
     = Inr (Inr ''v1.2.3\<newline>v1.2.2\<newline>'')
   \<and> stringContainsCTLByte
       ''https://example.com/dl/v1.2.3\<newline>v1.2.2/tool-v1.2.3\<newline>v1.2.2.tar.gz''
   \<and> fst (generic_GetLatestVersion example_parse (example_Get ''v1.2.3\<newline>v1.2.2\<newline>'')
           example_generic)
     = Inl (UrlError ''parse''
              ''https://example.com/dl/v1.2.3\<newline>v1.2.2/tool-v1.2.3\<newline>v1.2.2.tar.gz''
              ''net/url: invalid control character in URL'')"
proof -
  have g: "example_Get '' v1.2.3\<newline>'' (URL_String (generic_versionURL example_generic))
     = Inr (Inr '' v1.2.3\<newline>'')"
    by (simp add: example_Get_def example_generic_fields)
  have j: "generic_url example_generic
             = Join [''https://example.com/dl/'', ''/tool-'', ''.tar.gz''] ''{version}''"
    by (simp add: example_generic_fields)
  have n: "\<forall>p \<in> set [''https://example.com/dl/'', ''/tool-'', ''.tar.gz'']. \<not> sublist ''{version}'' p"
    by code_simp
  note r = generic_GetLatestVersion_resolution [where Get = "example_Get '' v1.2.3\<newline>''"
      and g = example_generic and parse = example_parse, OF g]
  from r j n have
    "ReplaceAll (generic_url example_generic) ''{version}'' (TrimSpace '' v1.2.3\<newline>'')
       = Join [''https://example.com/dl/'', ''/tool-'', ''.tar.gz''] (TrimSpace '' v1.2.3\<newline>'')"
    by blast
  then have e: "ReplaceAll (generic_url example_generic) ''{version}'' (TrimSpace '' v1.2.3\<newline>'')
       = ''https://example.com/dl/v1.2.3/tool-v1.2.3.tar.gz''"
    by (simp add: example_TrimSpace)
  have p: "url_Parse example_parse ''https://example.com/dl/v1.2.3/tool-v1.2.3.tar.gz''
             = Inr \<lparr>Path = ''/dl/v1.2.3/tool-v1.2.3.tar.gz'',
                    URL_String = ''https://example.com/dl/v1.2.3/tool-v1.2.3.tar.gz''\<rparr>"
    by (simp add: url_Parse_def stringContainsCTLByte_def example_parse_def Let_def)
  from r have a: "fst (generic_GetLatestVersion example_parse (example_Get '' v1.2.3\<newline>'') example_generic)
     = Inr (''v1.2.3'', ''https://example.com/dl/v1.2.3/tool-v1.2.3.tar.gz'')"
    unfolding e p by (simp add: example_TrimSpace)
  have g': "example_Get ''v1.2.3\<newline>v1.2.2\<newline>'' (URL_String (generic_versionURL example_generic))
     = Inr (Inr ''v1.2.3\<newline>v1.2.2\<newline>'')"
    by (simp add: example_Get_def example_generic_fields)
  have t: "takeWhile (\<lambda>c. c \<noteq> CHR ''#'')
             (ReplaceAll (generic_url example_generic) ''{version}''
                (TrimSpace ''v1.2.3\<newline>v1.2.2\<newline>''))
           = ''https://example.com/dl/v1.2.3\<newline>v1.2.2/tool-v1.2.3\<newline>v1.2.2.tar.gz''"
    by (simp add: example_TrimSpace example_generic_fields)
  have c: "stringContainsCTLByte
       ''https://example.com/dl/v1.2.3\<newline>v1.2.2/tool-v1.2.3\<newline>v1.2.2.tar.gz''"
    by (simp add: stringContainsCTLByte_def)
  note r' = generic_GetLatestVersion_resolution [where Get = "example_Get ''v1.2.3\<newline>v1.2.2\<newline>''"
      and g = example_generic and parse = example_parse, OF g', unfolded t]
  from r' c have b: "fst (generic_GetLatestVersion example_parse
           (example_Get ''v1.2.3\<newline>v1.2.2\<newline>'') example_generic)
     = Inl (UrlError ''parse''
              ''https://example.com/dl/v1.2.3\<newline>v1.2.2/tool-v1.2.3\<newline>v1.2.2.tar.gz''
              ''net/url: invalid control character in URL'')"
    by blast
  from g a g' c b show ?thesis by simp
qed

text \<open>
  A body of two lines keeps its inner line break when trimmed; the template with that
  version in it holds a control byte, \<open>url.Parse\<close> rejects it, and
  \<open>GetLatestVersion\<close> returns the parse error: neither the trimmed body as version
  nor the substituted template as URL. A body with a space inside keeps it when
  trimmed; the template with that version in it parses, and the URL returned is the
  \<open>String()\<close> form of the parsed URL, with \<open>%20\<close> for the space, not the
  substituted template.
\<close>

theorem generic_GetLatestVersion_counterexample:
  "example_Get ''v1.2.3\<newline>v1.2.2\<newline>'' (URL_String (generic_versionURL example_generic))
     = Inr (Inr ''v1.2.3\<newline>v1.2.2\<newline>'')
   \<and> fst (generic_GetLatestVersion example_parse (example_Get ''v1.2.3\<newline>v1.2.2\<newline>'')
           example_generic)
     = Inl (UrlError ''parse''
              ''https://example.com/dl/v1.2.3\<newline>v1.2.2/tool-v1.2.3\<newline>v1.2.2.tar.gz''
              ''net/url: invalid control character in URL'')
   \<and> fst (generic_GetLatestVersion example_parse (example_Get ''v1.2.3\<newline>v1.2.2\<newline>'')
           example_generic)
     \<noteq> Inr (TrimSpace ''v1.2.3\<newline>v1.2.2\<newline>'',
             ReplaceAll (generic_url example_generic) ''{version}''
               (TrimSpace ''v1.2.3\<newline>v1.2.2\<newline>''))
   \<and> example_Get ''v1.2.3 beta\<newline>'' (URL_String (generic_versionURL example_generic))
     = Inr (Inr ''v1.2.3 beta\<newline>'')
   \<and> ReplaceAll (generic_url example_generic) ''{version}'' (TrimSpace ''v1.2.3 beta\<newline>'')
     = ''https://example.com/dl/v1.2.3 beta/tool-v1.2.3 beta.tar.gz''
   \<and> fst (generic_GetLatestVersion example_parse (example_Get ''v1.2.3 beta\<newline>'')
           example_generic)
     = Inr (''v1.2.3 beta'', ''https://example.com/dl/v1.2.3%20beta/tool-v1.2.3%20beta.tar.gz'')
   \<and> fst (generic_GetLatestVersion example_parse (example_Get ''v1.2.3 beta\<newline>'')
           example_generic)
     \<noteq> Inr (TrimSpace ''v1.2.3 beta\<newline>'',
             ReplaceAll (generic_url example_generic) ''{version}''
               (TrimSpace ''v1.2.3 beta\<newline>''))"
proof -
  have g: "example_Get ''v1.2.3\<newline>v1.2.2\<newline>'' (URL_String (generic_versionURL example_generic))
     = Inr (Inr ''v1.2.3\<newline>v1.2.2\<newline>'')"
    by (simp add: example_Get_def example_generic_fields)
  have a: "fst (generic_GetLatestVersion example_parse (example_Get ''v1.2.3\<newline>v1.2.2\<newline>'')
           example_generic)
     = Inl (UrlError ''parse''
              ''https://example.com/dl/v1.2.3\<newline>v1.2.2/tool-v1.2.3\<newline>v1.2.2.tar.gz''
              ''net/url: invalid control character in URL'')"
    unfolding generic_GetLatestVersion_read [where Get = "example_Get ''v1.2.3\<newline>v1.2.2\<newline>''"
        and g = example_generic, OF g] example_TrimSpace example_generic_fields
    by (simp add: url_Parse_def stringContainsCTLByte_def)
  have g': "example_Get ''v1.2.3 beta\<newline>'' (URL_String (generic_versionURL example_generic))
     = Inr (Inr ''v1.2.3 beta\<newline>'')"
    by (simp add: example_Get_def example_generic_fields)
  have e: "ReplaceAll (generic_url example_generic) ''{version}'' (TrimSpace ''v1.2.3 beta\<newline>'')
     = ''https://example.com/dl/v1.2.3 beta/tool-v1.2.3 beta.tar.gz''"
    by (simp add: example_TrimSpace example_generic_fields)
  have b: "fst (generic_GetLatestVersion example_parse (example_Get ''v1.2.3 beta\<newline>'')
           example_generic)
     = Inr (''v1.2.3 beta'', ''https://example.com/dl/v1.2.3%20beta/tool-v1.2.3%20beta.tar.gz'')"
    unfolding generic_GetLatestVersion_read [where Get = "example_Get ''v1.2.3 beta\<newline>''"
        and g = example_generic, OF g'] e
    by (simp add: example_TrimSpace url_Parse_def stringContainsCTLByte_def example_parse_def Let_def)
  have "fst (generic_GetLatestVersion example_parse (example_Get ''v1.2.3 beta\<newline>'')
           example_generic)
     \<noteq> Inr (TrimSpace ''v1.2.3 beta\<newline>'',
             ReplaceAll (generic_url example_generic) ''{version}''
               (TrimSpace ''v1.2.3 beta\<newline>''))"
    unfolding b e by (simp add: example_TrimSpace)
  with g a g' e b show ?thesis by simp
qed

subsection \<open>Resolved versions\<close>

lemma generic_Fetch_Inr:
  assumes "fst (generic_Fetch parse Get NewFilter g opts) = Inr file"
  shows "\<exists>u. fst (generic_GetLatestVersion parse Get g) = Inr (File_Version file, u)"
proof (cases "generic_GetLatestVersion parse Get g")
  case (Pair r l)
  show ?thesis
  proof (cases r)
    case (Inl e)
    with Pair assms show ?thesis by (simp add: generic_Fetch_def)
  next
    case (Inr vu)
    obtain version u where vu: "vu = (version, u)" by (cases vu)
    define f where "f = NewFilter \<lparr>SkipScoring = All opts, PackagePath = opts_PackagePath opts,
                             SkipPathCheck = SkipPatchCheck opts,
                             PackageName = opts_PackageName opts\<rparr>"
    define gf where "gf = \<lparr>fa_Name = [], fa_URL = u, ExtraHeaders = Map.empty\<rparr>"
    from assms Pair Inr vu have "File_Version file = version"
      by (cases "ProcessURL f gf")
        (auto simp: generic_Fetch_def Let_def f_def gf_def split: if_split_asm)
    with Pair Inr vu show ?thesis by simp
  qed
qed

lemma GetLatestVersion_Inr:
  assumes "fst (GetLatestVersion gh g) = Inr (version, u)"
  shows "version = GetTagName (fst (GetLatestRelease gh (client g) (owner g) (repo g)))"
  using assms
  by (cases "GetLatestRelease gh (client g) (owner g) (repo g)")
    (auto simp: GetLatestVersion_def split: option.split_asm)

lemma GetTagName_nonempty:
  "GetTagName r \<noteq> [] \<longleftrightarrow> (\<exists>rel t. r = Some rel \<and> TagName rel = Some t \<and> t \<noteq> [])"
  by (auto simp: GetTagName_def split: option.split)

lemma Fetch_Ok_release:
  assumes "Fetch gh NewFilter g opts = (Ok file, g', l)"
  shows "File_Version file =
           GetTagName (fst (if tag g \<noteq> [] \<or> opts_Version opts \<noteq> []
                            then GetReleaseByTag gh (client g) (owner g) (repo g) (tag g')
                            else GetLatestRelease gh (client g) (owner g) (repo g)))"
proof -
  from Fetch_Ok [OF assms] obtain release err l0 l1
    where r: "Fetch_release gh g opts = (Ok (release, err), g', l0)"
      and a: "Fetch_asset NewFilter g' opts (release, err) = (Ok file, l1)" by blast
  from Fetch_asset_Ok(2) [OF a] have v: "File_Version file = GetTagName release" by auto
  have "fst (if tag g \<noteq> [] \<or> opts_Version opts \<noteq> []
             then GetReleaseByTag gh (client g) (owner g) (repo g) (tag g')
             else GetLatestRelease gh (client g) (owner g) (repo g)) = release"
  proof (cases "tag g \<noteq> [] \<or> opts_Version opts \<noteq> []")
    case True
    from r show ?thesis
      unfolding Fetch_release_by_tag [OF True] using True
      by (auto simp: Let_def split: if_split_asm)
  next
    case False
    then have t: "tag g = []" "opts_Version opts = []" by simp_all
    from r show ?thesis
      unfolding Fetch_release_latest [OF t] using t
      by (auto simp: Let_def split: option.split_asm)
  qed
  with v show ?thesis by simp
qed

text \<open>
  C9, as the code has it. No operation tests the version it resolved. The generic
  provider succeeds with the trimmed body as version, which is not empty exactly
  when the body is not white space only; the GitHub provider succeeds with the tag
  name of the release as version, which is not empty exactly when the release
  carries a tag name that is not empty.
\<close>

theorem resolved_version_nonempty_iff:
  "(fst (generic_GetLatestVersion parse Get g) = Inr (version, u) \<longrightarrow>
      (\<exists>content. Get (URL_String (generic_versionURL g)) = Inr (Inr content)
          \<and> version = TrimSpace content \<and> (version \<noteq> [] \<longleftrightarrow> \<not> all_space content)))
   \<and> (fst (generic_Fetch parse Get NewFilter g opts) = Inr file \<longrightarrow>
      (\<exists>content. Get (URL_String (generic_versionURL g)) = Inr (Inr content)
          \<and> File_Version file = TrimSpace content
          \<and> (File_Version file \<noteq> [] \<longleftrightarrow> \<not> all_space content)))
   \<and> (fst (GetLatestVersion gh p) = Inr (version', u') \<longrightarrow>
        version' = GetTagName (fst (GetLatestRelease gh (client p) (owner p) (repo p)))
        \<and> (version' \<noteq> [] \<longleftrightarrow>
             (\<exists>rel t. fst (GetLatestRelease gh (client p) (owner p) (repo p)) = Some rel
                 \<and> TagName rel = Some t \<and> t \<noteq> [])))
   \<and> (Fetch gh NewFilter p opts' = (Ok file', p', l) \<longrightarrow>
        File_Version file' =
          GetTagName (fst (if tag p \<noteq> [] \<or> opts_Version opts' \<noteq> []
                           then GetReleaseByTag gh (client p) (owner p) (repo p) (tag p')
                           else GetLatestRelease gh (client p) (owner p) (repo p)))
        \<and> (File_Version file' \<noteq> [] \<longleftrightarrow>
             (\<exists>rel t. fst (if tag p \<noteq> [] \<or> opts_Version opts' \<noteq> []
                             then GetReleaseByTag gh (client p) (owner p) (repo p) (tag p')
                             else GetLatestRelease gh (client p) (owner p) (repo p)) = Some rel
                 \<and> TagName rel = Some t \<and> t \<noteq> [])))"
proof (intro conjI impI)
  assume "fst (generic_GetLatestVersion parse Get g) = Inr (version, u)"
  from generic_GetLatestVersion_Inr [OF this]
  show "\<exists>content. Get (URL_String (generic_versionURL g)) = Inr (Inr content)
          \<and> version = TrimSpace content \<and> (version \<noteq> [] \<longleftrightarrow> \<not> all_space content)"
    by (auto simp: TrimSpace_empty_iff [symmetric])
next
  assume "fst (generic_Fetch parse Get NewFilter g opts) = Inr file"
  from generic_Fetch_Inr [OF this] obtain w
    where "fst (generic_GetLatestVersion parse Get g) = Inr (File_Version file, w)" by blast
  from generic_GetLatestVersion_Inr [OF this]
  show "\<exists>content. Get (URL_String (generic_versionURL g)) = Inr (Inr content)
          \<and> File_Version file = TrimSpace content
          \<and> (File_Version file \<noteq> [] \<longleftrightarrow> \<not> all_space content)"
    by (auto simp: TrimSpace_empty_iff [symmetric])
next
  assume a: "fst (GetLatestVersion gh p) = Inr (version', u')"
  show v: "version' = GetTagName (fst (GetLatestRelease gh (client p) (owner p) (repo p)))"
    by (rule GetLatestVersion_Inr [OF a])
  show "version' \<noteq> [] \<longleftrightarrow>
             (\<exists>rel t. fst (GetLatestRelease gh (client p) (owner p) (repo p)) = Some rel
                 \<and> TagName rel = Some t \<and> t \<noteq> [])"
    unfolding v by (rule GetTagName_nonempty)
next
  assume a: "Fetch gh NewFilter p opts' = (Ok file', p', l)"
  show v: "File_Version file' =
          GetTagName (fst (if tag p \<noteq> [] \<or> opts_Version opts' \<noteq> []
                           then GetReleaseByTag gh (client p) (owner p) (repo p) (tag p')
                           else GetLatestRelease gh (client p) (owner p) (repo p)))"
    by (rule Fetch_Ok_release [OF a])
  show "File_Version file' \<noteq> [] \<longleftrightarrow>
             (\<exists>rel t. fst (if tag p \<noteq> [] \<or> opts_Version opts' \<noteq> []
                             then GetReleaseByTag gh (client p) (owner p) (repo p) (tag p')
                             else GetLatestRelease gh (client p) (owner p) (repo p)) = Some rel
                 \<and> TagName rel = Some t \<and> t \<noteq> [])"
    unfolding v by (rule GetTagName_nonempty)
qed

theorem resolved_version_nonempty_iff_witness:
  "fst (generic_GetLatestVersion example_parse (example_Get '' v1.2.3\<newline>'') example_generic)
     = Inr (''v1.2.3'', ''https://example.com/dl/v1.2.3/tool-v1.2.3.tar.gz'')
   \<and> \<not> all_space '' v1.2.3\<newline>''
   \<and> fst (GetLatestVersion (example_github (Some example_release, Some \<lparr>StatusCode = 200\<rparr>, None))
          (example_provider []))
     = Inr (''v1.2.3'', ''https://github.com/owner/repo/releases/tag/v1.2.3'')
   \<and> (\<exists>t. TagName example_release = Some t \<and> t \<noteq> [])"
proof -
  let ?gh = "example_github (Some example_release, Some \<lparr>StatusCode = 200\<rparr>, None)"
  have a: "fst (generic_GetLatestVersion example_parse (example_Get '' v1.2.3\<newline>'') example_generic)
     = Inr (''v1.2.3'', ''https://example.com/dl/v1.2.3/tool-v1.2.3.tar.gz'')"
    by (simp add: generic_GetLatestVersion_def example_Get_def example_generic_fields
        example_TrimSpace url_Parse_def stringContainsCTLByte_def example_parse_def Let_def)
  have b: "fst (GetLatestVersion ?gh (example_provider []))
     = Inr (''v1.2.3'', ''https://github.com/owner/repo/releases/tag/v1.2.3'')"
    by (simp add: GetLatestVersion_def example_github_def GetTagName_def GetHTMLURL_def
        example_release_def)
  have l: "fst (GetLatestRelease ?gh c ow re) = Some example_release" for c ow re
    by (simp add: example_github_def)
  note r = resolved_version_nonempty_iff [where parse = example_parse
      and Get = "example_Get '' v1.2.3\<newline>''" and g = example_generic
      and version = "''v1.2.3''" and u = "''https://example.com/dl/v1.2.3/tool-v1.2.3.tar.gz''"
      and gh = ?gh and p = "example_provider []" and version' = "''v1.2.3''"
      and u' = "''https://github.com/owner/repo/releases/tag/v1.2.3''"]
  from r [THEN conjunct1, rule_format, OF a]
  have "\<not> all_space '' v1.2.3\<newline>''"
    by (auto simp: example_Get_def example_generic_fields)
  moreover from r [THEN conjunct2, THEN conjunct2, THEN conjunct1, rule_format, OF b]
  have "\<exists>t. TagName example_release = Some t \<and> t \<noteq> []"
    unfolding l by auto
  ultimately show ?thesis using a b by simp
qed

text \<open>
  A body that is a line break only, and a release without a tag name: both
  \<open>GetLatestVersion\<close> succeed, with the empty version.
\<close>

theorem resolved_version_counterexample:
  "fst (generic_GetLatestVersion example_parse (example_Get ''\<newline>'') example_generic)
     = Inr ([], ''https://example.com/dl//tool-.tar.gz'')
   \<and> fst (GetLatestVersion
          (example_github (Some \<lparr>TagName = None,
                                   HTMLURL = Some ''https://github.com/owner/repo/releases/1'',
                                   Assets = []\<rparr>, Some \<lparr>StatusCode = 200\<rparr>, None))
          (example_provider []))
     = Inr ([], ''https://github.com/owner/repo/releases/1'')"
proof
  show "fst (generic_GetLatestVersion example_parse (example_Get ''\<newline>'') example_generic)
     = Inr ([], ''https://example.com/dl//tool-.tar.gz'')"
    by (simp add: generic_GetLatestVersion_def example_Get_def example_generic_fields
        example_TrimSpace url_Parse_def stringContainsCTLByte_def example_parse_def Let_def)
  show "fst (GetLatestVersion
          (example_github (Some \<lparr>TagName = None,
                                   HTMLURL = Some ''https://github.com/owner/repo/releases/1'',
                                   Assets = []\<rparr>, Some \<lparr>StatusCode = 200\<rparr>, None))
          (example_provider []))
     = Inr ([], ''https://github.com/owner/repo/releases/1'')"
    by (simp add: GetLatestVersion_def example_github_def GetTagName_def GetHTMLURL_def)
qed

end
